theory Spec2Isabelle
  imports Complex_Main
begin

section \<open>Python values and the operations the router applies to them\<close>

text \<open>
  The router (\<^verbatim>\<open>src/baseline/query_router.py\<close>) receives a query descriptor as a plain
  Python dictionary and probes it with \<^verbatim>\<open>.get\<close>, \<^verbatim>\<open>len\<close>, \<^verbatim>\<open>in\<close>, iteration,
  truthiness tests and f-string formatting. Nothing in the code fixes the shape of the
  descriptor, so the model keeps the values untyped: \<open>pyval\<close> is the JSON-like fragment of
  Python values (None, integers, strings, lists, dictionaries with string keys). Strings
  are ASCII text. A dictionary is the list of its items in insertion order; the keys of a
  Python dictionary are distinct, and \<open>map_of\<close> reads the first binding of a key.

  Every place where the Python raises is a branch of the model: a result is
  \<open>pyerr + 'a\<close> with \<open>Inl\<close> the exception.
\<close>

datatype pyval =
    PNone
  | PInt int
  | PStr string
  | PList "pyval list"
  | PDict "(string \<times> pyval) list"

datatype pyerr = AttributeError | TypeError | ValueError

fun bind_res :: "pyerr + 'a \<Rightarrow> ('a \<Rightarrow> pyerr + 'b) \<Rightarrow> pyerr + 'b" where
  "bind_res (Inl e) f = Inl e"
| "bind_res (Inr x) f = f x"

text \<open>\<^verbatim>\<open>x.get(k, d)\<close>: only a dictionary has the method.\<close>

fun py_get :: "pyval \<Rightarrow> string \<Rightarrow> pyval \<Rightarrow> pyerr + pyval" where
  "py_get (PDict kvs) k d = Inr (case map_of kvs k of Some v \<Rightarrow> v | None \<Rightarrow> d)"
| "py_get _ k d = Inl AttributeError"

text \<open>\<^verbatim>\<open>len(x)\<close>.\<close>

fun py_len :: "pyval \<Rightarrow> pyerr + nat" where
  "py_len (PStr s) = Inr (length s)"
| "py_len (PList xs) = Inr (length xs)"
| "py_len (PDict kvs) = Inr (length kvs)"
| "py_len _ = Inl TypeError"

text \<open>\<^verbatim>\<open>for x in v\<close>: a string yields its characters, a dictionary its keys.\<close>

fun py_iter :: "pyval \<Rightarrow> pyerr + pyval list" where
  "py_iter (PStr s) = Inr (map (\<lambda>c. PStr [c]) s)"
| "py_iter (PList xs) = Inr xs"
| "py_iter (PDict kvs) = Inr (map (\<lambda>kv. PStr (fst kv)) kvs)"
| "py_iter _ = Inl TypeError"

text \<open>Is \<open>k\<close> a contiguous part of \<open>s\<close> (Python's \<^verbatim>\<open>k in s\<close> on two strings)?\<close>

fun is_prefix :: "'a list \<Rightarrow> 'a list \<Rightarrow> bool" where
  "is_prefix [] ys = True"
| "is_prefix (x # xs) [] = False"
| "is_prefix (x # xs) (y # ys) = (x = y \<and> is_prefix xs ys)"

fun occurs_in :: "'a list \<Rightarrow> 'a list \<Rightarrow> bool" where
  "occurs_in k [] = (k = [])"
| "occurs_in k (y # ys) = (is_prefix k (y # ys) \<or> occurs_in k ys)"

text \<open>\<^verbatim>\<open>'name' in v\<close> for a string literal on the left.\<close>

fun py_in :: "string \<Rightarrow> pyval \<Rightarrow> pyerr + bool" where
  "py_in k (PStr s) = Inr (occurs_in k s)"
| "py_in k (PList xs) = Inr (PStr k \<in> set xs)"
| "py_in k (PDict kvs) = Inr (k \<in> fst ` set kvs)"
| "py_in k _ = Inl TypeError"

text \<open>Truthiness, as \<^verbatim>\<open>if v:\<close> and \<^verbatim>\<open>not v\<close> read it.\<close>

fun py_truthy :: "pyval \<Rightarrow> bool" where
  "py_truthy PNone = False"
| "py_truthy (PInt i) = (i \<noteq> 0)"
| "py_truthy (PStr s) = (s \<noteq> [])"
| "py_truthy (PList xs) = (xs \<noteq> [])"
| "py_truthy (PDict kvs) = (kvs \<noteq> [])"

text \<open>\<^verbatim>\<open>any(f(x) for x in xs)\<close> stops at the first true element, so an element after it
  is never evaluated and cannot raise.\<close>

fun py_any :: "('a \<Rightarrow> pyerr + bool) \<Rightarrow> 'a list \<Rightarrow> pyerr + bool" where
  "py_any f [] = Inr False"
| "py_any f (x # xs) =
     (case f x of Inl e \<Rightarrow> Inl e
      | Inr b \<Rightarrow> if b then Inr True else py_any f xs)"

text \<open>\<^verbatim>\<open>a, b = v\<close>.\<close>

definition py_unpack2 :: "pyval \<Rightarrow> pyerr + (pyval \<times> pyval)" where
  "py_unpack2 v =
     (case py_iter v of Inl e \<Rightarrow> Inl e
      | Inr xs \<Rightarrow> (case xs of [a, b] \<Rightarrow> Inr (a, b) | _ \<Rightarrow> Inl ValueError))"

text \<open>\<^verbatim>\<open>v.upper()\<close>: only a string has the method; ASCII letters change.\<close>

definition upper_char :: "char \<Rightarrow> char" where
  "upper_char c =
     (case map_of (zip ''abcdefghijklmnopqrstuvwxyz'' ''ABCDEFGHIJKLMNOPQRSTUVWXYZ'') c of
        Some u \<Rightarrow> u
      | None \<Rightarrow> c)"

fun py_upper :: "pyval \<Rightarrow> pyerr + string" where
  "py_upper (PStr s) = Inr (map upper_char s)"
| "py_upper _ = Inl AttributeError"

text \<open>\<^verbatim>\<open>sep.join(parts)\<close>.\<close>

fun join :: "string \<Rightarrow> string list \<Rightarrow> string" where
  "join sep [] = []"
| "join sep [x] = x"
| "join sep (x # y # ys) = x @ sep @ join sep (y # ys)"

subsection \<open>Formatting a value inside an f-string\<close>

text \<open>\<^verbatim>\<open>f"{v}"\<close> is \<^verbatim>\<open>str(v)\<close>: a string is copied as it is, None is \<^verbatim>\<open>None\<close>, an integer is
  written in decimal, and a list or a dictionary is written with the \<^verbatim>\<open>repr\<close> of its
  elements.\<close>

definition digit_char :: "nat \<Rightarrow> char" where
  "digit_char d = ''0123456789'' ! d"

fun str_nat :: "nat \<Rightarrow> string" where
  "str_nat n = (if n < 10 then [digit_char n] else str_nat (n div 10) @ [digit_char (n mod 10)])"

definition str_int :: "int \<Rightarrow> string" where
  "str_int i = (if i < 0 then ''-'' @ str_nat (nat (- i)) else str_nat (nat i))"

definition squote_char :: char where "squote_char = CHR 0x27"
definition dquote_char :: char where "dquote_char = CHR 0x22"
definition backslash_char :: char where "backslash_char = CHR 0x5C"

definition hex_char :: "nat \<Rightarrow> char" where
  "hex_char d = ''0123456789abcdef'' ! d"

definition repr_char :: "char \<Rightarrow> char \<Rightarrow> string" where
  "repr_char q c =
     (if c = q \<or> c = backslash_char then [backslash_char, c]
      else if c = CHR 0x09 then [backslash_char, CHR ''t'']
      else if c = CHR 0x0A then [backslash_char, CHR ''n'']
      else if c = CHR 0x0D then [backslash_char, CHR ''r'']
      else if (of_char c :: nat) < 32 \<or> 127 \<le> (of_char c :: nat)
        then [backslash_char, CHR ''x'', hex_char ((of_char c :: nat) div 16),
              hex_char ((of_char c :: nat) mod 16)]
      else [c])"

definition repr_str :: "string \<Rightarrow> string" where
  "repr_str s =
     (let q = (if squote_char \<in> set s \<and> dquote_char \<notin> set s then dquote_char else squote_char)
      in q # concat (map (repr_char q) s) @ [q])"

fun py_repr :: "pyval \<Rightarrow> string"
  and py_repr_list :: "pyval list \<Rightarrow> string list"
  and py_repr_items :: "(string \<times> pyval) list \<Rightarrow> string list" where
  "py_repr PNone = ''None''"
| "py_repr (PInt i) = str_int i"
| "py_repr (PStr s) = repr_str s"
| "py_repr (PList xs) = ''['' @ join '', '' (py_repr_list xs) @ '']''"
| "py_repr (PDict kvs) = ''{'' @ join '', '' (py_repr_items kvs) @ ''}''"
| "py_repr_list [] = []"
| "py_repr_list (x # xs) = py_repr x # py_repr_list xs"
| "py_repr_items [] = []"
| "py_repr_items (kv # kvs) = (repr_str (fst kv) @ '': '' @ py_repr (snd kv)) # py_repr_items kvs"

fun py_str :: "pyval \<Rightarrow> string" where
  "py_str (PStr s) = s"
| "py_str v = py_repr v"

definition squote :: "string \<Rightarrow> string" where
  "squote s = squote_char # s @ [squote_char]"

section \<open>The rewrite rules\<close>

text \<open>
  Each rule of \<^verbatim>\<open>query_router.py\<close> is one definition below, statement by statement:
  the three or four \<^verbatim>\<open>q.get(..., [])\<close>, the tests in the order of the source, each
  \<^verbatim>\<open>return None\<close> as \<open>Inr None\<close>, and the f-string of the SQL at the end. A rule that
  matches also prints a line naming the pattern; the line has no effect on the result
  and is left out.
\<close>

text \<open>\<^verbatim>\<open>DATA_STORE = Path("data_store")\<close>, and the \<^verbatim>\<open>read_parquet('{DATA_STORE}/file')\<close>
  that every template's FROM clause is made of.\<close>

definition DATA_STORE :: string where
  "DATA_STORE = ''data_store''"

definition read_parquet :: "string \<Rightarrow> string" where
  "read_parquet file = ''read_parquet('' @ squote (DATA_STORE @ ''/'' @ file) @ '')''"

definition agg_revenue :: string where
  "agg_revenue = ''agg_revenue_by_minute_publisher_country.parquet''"

definition agg_counts :: string where
  "agg_counts = ''agg_counts_by_advertiser_type.parquet''"

definition agg_purchase :: string where
  "agg_purchase = ''agg_purchase_summary.parquet''"

text \<open>\<^verbatim>\<open>isinstance(s, dict) and s.get(f) == c\<close>, the test on one select item.\<close>

fun is_agg :: "string \<Rightarrow> string \<Rightarrow> pyval \<Rightarrow> bool" where
  "is_agg f c (PDict kvs) = (map_of kvs f = Some (PStr c))"
| "is_agg f c _ = False"

text \<open>\<^verbatim>\<open>w.get('col') == c and w.get('op') == 'eq' and w.get('val') == v\<close>, the test on
  one filter; \<^verbatim>\<open>w.get\<close> raises on a filter that is not a dictionary.\<close>

fun is_eq_filter :: "string \<Rightarrow> string \<Rightarrow> pyval \<Rightarrow> pyerr + bool" where
  "is_eq_filter c v (PDict kvs) =
     Inr (map_of kvs ''col'' = Some (PStr c) \<and> map_of kvs ''op'' = Some (PStr ''eq'')
          \<and> map_of kvs ''val'' = Some (PStr v))"
| "is_eq_filter c v _ = Inl AttributeError"

subsection \<open>Q1: daily revenue totals\<close>

definition q1_head :: string where
  \<open>q1_head =
     ''\<newline>'' @
     ''        SELECT\<newline>'' @
     ''            day,\<newline>'' @
     ''            SUM(total_revenue) AS "sum(bid_price)"\<newline>'' @
     ''        FROM ''\<close>

definition q1_sql :: string where
  "q1_sql =
     q1_head @ read_parquet agg_revenue @ ''\<newline>'' @
     ''        GROUP BY day\<newline>'' @
     ''    ''"

definition try_q1_pattern :: "pyval \<Rightarrow> pyerr + string option" where
  "try_q1_pattern q =
     bind_res (py_get q ''select'' (PList [])) (\<lambda>select.
     bind_res (py_get q ''where'' (PList [])) (\<lambda>whr.
     bind_res (py_get q ''group_by'' (PList [])) (\<lambda>group_by.
     if group_by \<noteq> PList [PStr ''day''] then Inr None else
     bind_res (py_len select) (\<lambda>n.
     if n \<noteq> 2 then Inr None else
     bind_res (py_in ''day'' select) (\<lambda>has_day.
     bind_res (py_iter select) (\<lambda>items.
     if \<not> (has_day \<and> list_ex (is_agg ''SUM'' ''bid_price'') items) then Inr None else
     bind_res (py_iter whr) (\<lambda>ws.
     bind_res (py_any (is_eq_filter ''type'' ''impression'') ws) (\<lambda>has_impression_filter.
     if \<not> has_impression_filter then Inr None else
     bind_res (py_len whr) (\<lambda>m.
     if m > 1 then Inr None else
     Inr (Some q1_sql))))))))))"

subsection \<open>Q2: publisher revenue by country and date range\<close>

text \<open>The loop over the filters keeps three variables; a later filter on the same
  column and operator overwrites an earlier one, and a filter that is none of the three
  kinds changes nothing.\<close>

fun q2_filters :: "pyval list \<Rightarrow> pyval \<times> pyval \<times> pyval \<Rightarrow> pyerr + (pyval \<times> pyval \<times> pyval)" where
  "q2_filters [] acc = Inr acc"
| "q2_filters (w # ws) (type_filter, country_filter, day_filter) =
     bind_res (py_get w ''col'' PNone) (\<lambda>col.
     bind_res (py_get w ''op'' PNone) (\<lambda>op.
     bind_res (py_get w ''val'' PNone) (\<lambda>val.
     if col = PStr ''type'' \<and> op = PStr ''eq'' then q2_filters ws (val, country_filter, day_filter)
     else if col = PStr ''country'' \<and> op = PStr ''eq'' then q2_filters ws (type_filter, val, day_filter)
     else if col = PStr ''day'' \<and> op = PStr ''between'' then q2_filters ws (type_filter, country_filter, val)
     else q2_filters ws (type_filter, country_filter, day_filter))))"

definition q2_head :: string where
  \<open>q2_head =
     ''\<newline>'' @
     ''        SELECT\<newline>'' @
     ''            publisher_id,\<newline>'' @
     ''            SUM(total_revenue) AS "sum(bid_price)"\<newline>'' @
     ''        FROM ''\<close>

definition q2_sql :: "pyval \<Rightarrow> pyval \<Rightarrow> pyval \<Rightarrow> string" where
  "q2_sql country_filter day_start day_end =
     q2_head @ read_parquet agg_revenue @ ''\<newline>'' @
     ''        WHERE country = '' @ squote (py_str country_filter) @ ''\<newline>'' @
     ''          AND day BETWEEN '' @ squote (py_str day_start) @ '' AND '' @ squote (py_str day_end) @ ''\<newline>'' @
     ''        GROUP BY publisher_id\<newline>'' @
     ''    ''"

definition try_q2_pattern :: "pyval \<Rightarrow> pyerr + string option" where
  "try_q2_pattern q =
     bind_res (py_get q ''select'' (PList [])) (\<lambda>select.
     bind_res (py_get q ''where'' (PList [])) (\<lambda>whr.
     bind_res (py_get q ''group_by'' (PList [])) (\<lambda>group_by.
     if group_by \<noteq> PList [PStr ''publisher_id''] then Inr None else
     bind_res (py_len select) (\<lambda>n.
     if n \<noteq> 2 then Inr None else
     bind_res (py_in ''publisher_id'' select) (\<lambda>has_publisher.
     bind_res (py_iter select) (\<lambda>items.
     if \<not> (has_publisher \<and> list_ex (is_agg ''SUM'' ''bid_price'') items) then Inr None else
     bind_res (py_iter whr) (\<lambda>ws.
     bind_res (q2_filters ws (PNone, PNone, PNone)) (\<lambda>(type_filter, country_filter, day_filter).
     if type_filter \<noteq> PStr ''impression'' then Inr None else
     if \<not> py_truthy country_filter \<or> \<not> py_truthy day_filter then Inr None else
     bind_res (py_unpack2 day_filter) (\<lambda>(day_start, day_end).
     Inr (Some (q2_sql country_filter day_start day_end)))))))))))"

subsection \<open>The ORDER BY clause of Q3, Q4 and Q5\<close>

text \<open>Each of the three rules builds its clause in the same loop,
  \<^verbatim>\<open>col = o.get('col'); direction = o.get('dir', 'asc').upper()\<close>, and differs in the one
  expression it replaces by the output alias: \<open>alias\<close> is that pair for Q3 and Q4, and
  \<open>None\<close> for Q5, which replaces nothing.\<close>

definition order_part :: "(string \<times> string) option \<Rightarrow> pyval \<Rightarrow> pyerr + string" where
  "order_part alias ob =
     bind_res (py_get ob ''col'' PNone) (\<lambda>col.
     bind_res (py_get ob ''dir'' (PStr ''asc'')) (\<lambda>d.
     bind_res (py_upper d) (\<lambda>direction.
     case alias of
       Some (expr, name) \<Rightarrow>
         if col = PStr expr then Inr (name @ '' '' @ direction)
         else Inr (py_str col @ '' '' @ direction)
     | None \<Rightarrow> Inr (py_str col @ '' '' @ direction))))"

fun order_parts :: "(string \<times> string) option \<Rightarrow> pyval list \<Rightarrow> pyerr + string list" where
  "order_parts alias [] = Inr []"
| "order_parts alias (ob # obs) =
     bind_res (order_part alias ob) (\<lambda>p.
     bind_res (order_parts alias obs) (\<lambda>ps. Inr (p # ps)))"

definition order_clause :: "(string \<times> string) option \<Rightarrow> pyval \<Rightarrow> pyerr + string" where
  "order_clause alias order_by =
     (if py_truthy order_by then
        bind_res (py_iter order_by) (\<lambda>obs.
        bind_res (order_parts alias obs) (\<lambda>ps. Inr (''ORDER BY '' @ join '', '' ps)))
      else Inr [])"

definition q3_alias :: "(string \<times> string) option" where
  \<open>q3_alias = Some (''AVG(total_price)'', ''"avg(total_price)"'')\<close>

definition q4_alias :: "(string \<times> string) option" where
  \<open>q4_alias = Some (''COUNT(*)'', ''"count_star()"'')\<close>

subsection \<open>Q3: average purchase value by country\<close>

definition q3_head :: string where
  \<open>q3_head =
     ''\<newline>'' @
     ''        SELECT\<newline>'' @
     ''            country,\<newline>'' @
     ''            sum_of_price / count_of_purchases AS "avg(total_price)"\<newline>'' @
     ''        FROM ''\<close>

definition q3_sql :: "string \<Rightarrow> string" where
  "q3_sql clause =
     q3_head @ read_parquet agg_purchase @ ''\<newline>'' @
     ''        '' @ clause @ ''\<newline>'' @
     ''    ''"

definition try_q3_pattern :: "pyval \<Rightarrow> pyerr + string option" where
  "try_q3_pattern q =
     bind_res (py_get q ''select'' (PList [])) (\<lambda>select.
     bind_res (py_get q ''where'' (PList [])) (\<lambda>whr.
     bind_res (py_get q ''group_by'' (PList [])) (\<lambda>group_by.
     bind_res (py_get q ''order_by'' (PList [])) (\<lambda>order_by.
     if group_by \<noteq> PList [PStr ''country''] then Inr None else
     bind_res (py_len select) (\<lambda>n.
     if n \<noteq> 2 then Inr None else
     bind_res (py_in ''country'' select) (\<lambda>has_country.
     bind_res (py_iter select) (\<lambda>items.
     if \<not> (has_country \<and> list_ex (is_agg ''AVG'' ''total_price'') items) then Inr None else
     bind_res (py_iter whr) (\<lambda>ws.
     bind_res (py_any (is_eq_filter ''type'' ''purchase'') ws) (\<lambda>has_purchase_filter.
     if \<not> has_purchase_filter then Inr None else
     bind_res (py_len whr) (\<lambda>m.
     if m > 1 then Inr None else
     bind_res (order_clause q3_alias order_by) (\<lambda>clause.
     Inr (Some (q3_sql clause)))))))))))))"

subsection \<open>Q4: event counts by advertiser and type\<close>

text \<open>\<^verbatim>\<open>set(group_by)\<close> needs an iterable of hashable elements: a list or a dictionary
  among them raises TypeError.\<close>

fun py_hashable :: "pyval \<Rightarrow> bool" where
  "py_hashable (PList xs) = False"
| "py_hashable (PDict kvs) = False"
| "py_hashable _ = True"

definition py_set :: "pyval \<Rightarrow> pyerr + pyval set" where
  "py_set v =
     bind_res (py_iter v) (\<lambda>xs.
     if list_all py_hashable xs then Inr (set xs) else Inl TypeError)"

definition q4_head :: string where
  \<open>q4_head =
     ''\<newline>'' @
     ''        SELECT\<newline>'' @
     ''            advertiser_id,\<newline>'' @
     ''            type,\<newline>'' @
     ''            event_count AS "count_star()"\<newline>'' @
     ''        FROM ''\<close>

definition q4_sql :: "string \<Rightarrow> string" where
  "q4_sql clause =
     q4_head @ read_parquet agg_counts @ ''\<newline>'' @
     ''        '' @ clause @ ''\<newline>'' @
     ''    ''"

definition try_q4_pattern :: "pyval \<Rightarrow> pyerr + string option" where
  "try_q4_pattern q =
     bind_res (py_get q ''select'' (PList [])) (\<lambda>select.
     bind_res (py_get q ''where'' (PList [])) (\<lambda>whr.
     bind_res (py_get q ''group_by'' (PList [])) (\<lambda>group_by.
     bind_res (py_get q ''order_by'' (PList [])) (\<lambda>order_by.
     bind_res (py_set group_by) (\<lambda>grain.
     if grain \<noteq> {PStr ''advertiser_id'', PStr ''type''} then Inr None else
     bind_res (py_len select) (\<lambda>n.
     if n \<noteq> 3 then Inr None else
     bind_res (py_in ''advertiser_id'' select) (\<lambda>has_advertiser.
     bind_res (py_in ''type'' select) (\<lambda>has_type.
     bind_res (py_iter select) (\<lambda>items.
     if \<not> (has_advertiser \<and> has_type \<and> list_ex (is_agg ''COUNT'' ''*'') items) then Inr None else
     if py_truthy whr then Inr None else
     bind_res (order_clause q4_alias order_by) (\<lambda>clause.
     Inr (Some (q4_sql clause))))))))))))"

subsection \<open>Q5: revenue by minute for one day\<close>

fun q5_filters :: "pyval list \<Rightarrow> pyval \<times> pyval \<Rightarrow> pyerr + (pyval \<times> pyval)" where
  "q5_filters [] acc = Inr acc"
| "q5_filters (w # ws) (type_filter, day_filter) =
     bind_res (py_get w ''col'' PNone) (\<lambda>col.
     bind_res (py_get w ''op'' PNone) (\<lambda>op.
     bind_res (py_get w ''val'' PNone) (\<lambda>val.
     if col = PStr ''type'' \<and> op = PStr ''eq'' then q5_filters ws (val, day_filter)
     else if col = PStr ''day'' \<and> op = PStr ''eq'' then q5_filters ws (type_filter, val)
     else q5_filters ws (type_filter, day_filter))))"

definition q5_head :: string where
  \<open>q5_head =
     ''\<newline>'' @
     ''        SELECT\<newline>'' @
     ''            minute,\<newline>'' @
     ''            SUM(total_revenue) AS "sum(bid_price)"\<newline>'' @
     ''        FROM ''\<close>

definition q5_sql :: "pyval \<Rightarrow> string \<Rightarrow> string" where
  "q5_sql day_filter clause =
     q5_head @ read_parquet agg_revenue @ ''\<newline>'' @
     ''        WHERE day = '' @ squote (py_str day_filter) @ ''\<newline>'' @
     ''        GROUP BY minute\<newline>'' @
     ''        '' @ clause @ ''\<newline>'' @
     ''    ''"

definition try_q5_pattern :: "pyval \<Rightarrow> pyerr + string option" where
  "try_q5_pattern q =
     bind_res (py_get q ''select'' (PList [])) (\<lambda>select.
     bind_res (py_get q ''where'' (PList [])) (\<lambda>whr.
     bind_res (py_get q ''group_by'' (PList [])) (\<lambda>group_by.
     bind_res (py_get q ''order_by'' (PList [])) (\<lambda>order_by.
     if group_by \<noteq> PList [PStr ''minute''] then Inr None else
     bind_res (py_len select) (\<lambda>n.
     if n \<noteq> 2 then Inr None else
     bind_res (py_in ''minute'' select) (\<lambda>has_minute.
     bind_res (py_iter select) (\<lambda>items.
     if \<not> (has_minute \<and> list_ex (is_agg ''SUM'' ''bid_price'') items) then Inr None else
     bind_res (py_iter whr) (\<lambda>ws.
     bind_res (q5_filters ws (PNone, PNone)) (\<lambda>(type_filter, day_filter).
     if type_filter \<noteq> PStr ''impression'' \<or> \<not> py_truthy day_filter then Inr None else
     bind_res (py_len whr) (\<lambda>m.
     if m > 2 then Inr None else
     bind_res (order_clause None order_by) (\<lambda>clause.
     Inr (Some (q5_sql day_filter clause)))))))))))))"

subsection \<open>The router\<close>

text \<open>\<^verbatim>\<open>a or b\<close> on the results of two rules: an exception in \<open>a\<close> propagates, a truthy
  \<open>a\<close> (a non-empty string) is the value and \<open>b\<close> is not evaluated, and a falsy \<open>a\<close>
  (None, or an empty string) gives \<open>b\<close>.\<close>

fun result_truthy :: "string option \<Rightarrow> bool" where
  "result_truthy None = False"
| "result_truthy (Some s) = (s \<noteq> [])"

definition py_or :: "pyerr + string option \<Rightarrow> pyerr + string option \<Rightarrow> pyerr + string option" where
  "py_or a b = bind_res a (\<lambda>r. if result_truthy r then Inr r else b)"

definition route_query :: "pyval \<Rightarrow> pyerr + string option" where
  "route_query q =
     py_or (try_q1_pattern q)
       (py_or (try_q2_pattern q)
         (py_or (try_q3_pattern q)
           (py_or (try_q4_pattern q)
             (try_q5_pattern q))))"

section \<open>The data store: the events table and the three rollups\<close>

text \<open>
  \<^verbatim>\<open>src/baseline/prepare.py\<close> loads the CSV batches into the table \<^verbatim>\<open>events\<close> and derives
  three rollups from it with SQL. The SQL is part of the program, so it is translated
  too. A table is the list of its rows. A column has the type of its declaration in
  \<^verbatim>\<open>CREATE TABLE events\<close>: VARCHAR, DATE and TIMESTAMP cells are text (dates in ISO form),
  INTEGER and BIGINT cells are integers, DOUBLE cells are real numbers (the floating-point
  rounding of DOUBLE is not modelled), and \<open>None\<close> is NULL. GROUP BY collects the rows of
  each distinct key, NULL keys forming one group; SUM, COUNT(c) and AVG skip NULL.
\<close>

record event =
  ev_ts :: "string option"
  ev_week :: "string option"
  ev_day :: "string option"
  ev_hour :: "string option"
  ev_minute :: "string option"
  ev_type :: "string option"
  ev_auction_id :: "string option"
  ev_advertiser_id :: "int option"
  ev_publisher_id :: "int option"
  ev_bid_price :: "real option"
  ev_user_id :: "int option"
  ev_total_price :: "real option"
  ev_country :: "string option"

fun present :: "'a option list \<Rightarrow> 'a list" where
  "present [] = []"
| "present (None # vs) = present vs"
| "present (Some x # vs) = x # present vs"

text \<open>\<^verbatim>\<open>SUM(c)\<close>, \<^verbatim>\<open>COUNT(c)\<close>, \<^verbatim>\<open>COUNT(*)\<close> and \<^verbatim>\<open>AVG(c)\<close> over the cells of one group.
  SUM and AVG of no value are NULL; AVG is the arithmetic mean of the cells that are not
  NULL.\<close>

definition sql_sum :: "real option list \<Rightarrow> real option" where
  "sql_sum vs = (if present vs = [] then None else Some (sum_list (present vs)))"

definition sql_count :: "'a option list \<Rightarrow> int" where
  "sql_count vs = int (length (present vs))"

definition sql_count_star :: "'r list \<Rightarrow> int" where
  "sql_count_star g = int (length g)"

fun mean :: "real list \<Rightarrow> real option" where
  "mean [] = None"
| "mean (x # xs) = Some ((x + sum_list xs) / (1 + real (length xs)))"

definition sql_avg :: "real option list \<Rightarrow> real option" where
  "sql_avg vs = mean (present vs)"

text \<open>\<^verbatim>\<open>a / b\<close> for a DOUBLE \<open>a\<close> and a BIGINT \<open>b\<close>: NULL when \<open>a\<close> is NULL, and NULL
  when \<open>b\<close> is zero.\<close>

definition sql_div :: "real option \<Rightarrow> int \<Rightarrow> real option" where
  "sql_div a b =
     (case a of None \<Rightarrow> None | Some x \<Rightarrow> if b = 0 then None else Some (x / of_int b))"

definition groups :: "('r \<Rightarrow> 'k) \<Rightarrow> 'r list \<Rightarrow> ('k \<times> 'r list) list" where
  "groups key rs = map (\<lambda>k. (k, filter (\<lambda>r. key r = k) rs)) (remdups (map key rs))"

subsection \<open>The rollups\<close>

record counts_row =
  cr_advertiser_id :: "int option"
  cr_type :: "string option"
  cr_event_count :: int

record revenue_row =
  rr_minute :: "string option"
  rr_day :: "string option"
  rr_publisher_id :: "int option"
  rr_country :: "string option"
  rr_total_revenue :: "real option"

record purchase_row =
  pr_country :: "string option"
  pr_sum_of_price :: "real option"
  pr_count_of_purchases :: int

text \<open>\<^verbatim>\<open>SELECT advertiser_id, type, COUNT(*) AS event_count FROM events
  GROUP BY advertiser_id, type\<close>\<close>

definition agg_counts_by_advertiser_type :: "event list \<Rightarrow> counts_row list" where
  "agg_counts_by_advertiser_type es =
     map (\<lambda>(k, g). \<lparr>cr_advertiser_id = fst k, cr_type = snd k, cr_event_count = sql_count_star g\<rparr>)
       (groups (\<lambda>e. (ev_advertiser_id e, ev_type e)) es)"

text \<open>\<^verbatim>\<open>SELECT minute, day, publisher_id, country, SUM(bid_price) AS total_revenue
  FROM events WHERE type = 'impression' GROUP BY minute, day, publisher_id, country\<close>\<close>

definition agg_revenue_by_minute_publisher_country :: "event list \<Rightarrow> revenue_row list" where
  "agg_revenue_by_minute_publisher_country es =
     map (\<lambda>(k, g). \<lparr>rr_minute = fst k, rr_day = fst (snd k), rr_publisher_id = fst (snd (snd k)),
                    rr_country = snd (snd (snd k)),
                    rr_total_revenue = sql_sum (map ev_bid_price g)\<rparr>)
       (groups (\<lambda>e. (ev_minute e, ev_day e, ev_publisher_id e, ev_country e))
          (filter (\<lambda>e. ev_type e = Some ''impression'') es))"

text \<open>\<^verbatim>\<open>SELECT country, SUM(total_price) AS sum_of_price,
  COUNT(total_price) AS count_of_purchases FROM events WHERE type = 'purchase'
  GROUP BY country\<close>\<close>

definition agg_purchase_summary :: "event list \<Rightarrow> purchase_row list" where
  "agg_purchase_summary es =
     map (\<lambda>(k, g). \<lparr>pr_country = k, pr_sum_of_price = sql_sum (map ev_total_price g),
                    pr_count_of_purchases = sql_count (map ev_total_price g)\<rparr>)
       (groups ev_country (filter (\<lambda>e. ev_type e = Some ''purchase'') es))"

subsection \<open>Loading the batches\<close>

text \<open>
  A CSV file is the line that names its columns and the rows under it, a cell without
  text being \<open>None\<close>; a file of zero bytes has no such line, so its list of column names
  is empty. \<^verbatim>\<open>pd.read_csv(csv_file, dtype=str)\<close> raises \<^verbatim>\<open>EmptyDataError\<close> (\<^verbatim>\<open>No columns
  to parse from file\<close>) for a file without column names and returns the frame of the
  columns and rows otherwise. \<^verbatim>\<open>chunk_df.empty\<close> holds when either axis of the frame has
  length 0. The INSERT statement that casts a batch into event rows runs inside the
  database engine; it is the parameter \<open>insert_rows\<close>, and it may fail (a cast that is
  not a TRY_CAST, a missing column), which aborts the run. Nothing in
  \<^verbatim>\<open>prepare.py\<close> catches an exception, so every exception ends the run.
\<close>

record csv_text =
  csv_header :: "string list"
  csv_rows :: "string option list list"

record frame =
  columns :: "string list"
  cells :: "string option list list"

datatype prep_error = FileNotFoundError | EmptyDataError | EngineError | IOError

definition read_csv :: "csv_text \<Rightarrow> prep_error + frame" where
  "read_csv f =
     (if csv_header f = [] then Inl EmptyDataError
      else Inr \<lparr>columns = csv_header f, cells = csv_rows f\<rparr>)"

definition frame_empty :: "frame \<Rightarrow> bool" where
  "frame_empty df = (cells df = [] \<or> columns df = [])"

datatype log_line =
    Processing nat nat string
  | WarningSkippingEmpty string
  | Loaded nat nat

record load_state =
  events_table :: "event list"
  total_rows :: nat
  printed :: "log_line list"

text \<open>The loop \<^verbatim>\<open>for i, csv_file in enumerate(csv_files, 1)\<close>; \<open>n\<close> is
  \<^verbatim>\<open>len(csv_files)\<close>. The file is read before the frame is tested.\<close>

fun load_batches ::
  "(frame \<Rightarrow> prep_error + event list) \<Rightarrow> nat \<Rightarrow> nat \<Rightarrow> (string \<times> csv_text) list \<Rightarrow> load_state
     \<Rightarrow> prep_error + load_state" where
  "load_batches insert_rows n i [] st = Inr st"
| "load_batches insert_rows n i ((csv_file, content) # rest) st =
     (let st1 = st\<lparr>printed := printed st @ [Processing i n csv_file]\<rparr> in
      case read_csv content of
        Inl e \<Rightarrow> Inl e
      | Inr chunk_df \<Rightarrow>
          if frame_empty chunk_df then
            load_batches insert_rows n (i + 1) rest
              (st1\<lparr>printed := printed st1 @ [WarningSkippingEmpty csv_file]\<rparr>)
          else
            (case insert_rows chunk_df of
               Inl e \<Rightarrow> Inl e
             | Inr new_rows \<Rightarrow>
                 load_batches insert_rows n (i + 1) rest
                   (st1\<lparr>events_table := events_table st1 @ new_rows,
                        total_rows := total_rows st1 + length (cells chunk_df),
                        printed := printed st1 @
                          [Loaded (length (cells chunk_df))
                             (total_rows st1 + length (cells chunk_df))]\<rparr>)))"

text \<open>
  After the loop, \<^verbatim>\<open>COPY events TO '{DATA_STORE}/events' (FORMAT PARQUET, PARTITION_BY
  (type, day), ...)\<close> writes the rows of the table into one directory per pair of
  \<^verbatim>\<open>type\<close> and \<^verbatim>\<open>day\<close>: a partition exists only when a row belongs to it, so a table
  without rows leaves no file. \<^verbatim>\<open>DATA_STORE\<close> was removed and created anew at the start
  of the run, so no older file is there either. Each of the three rollup statements then
  reads \<^verbatim>\<open>read_parquet('{DATA_STORE}/events/*/*/*.parquet', hive_partitioning=1)\<close>, which
  the engine refuses with an IO error when no file matches the pattern, and which
  returns the rows of all partitions otherwise, with the values they were written with.
\<close>

type_synonym parquet_partition = "(string option \<times> string option) \<times> event list"

definition export_events :: "event list \<Rightarrow> parquet_partition list" where
  "export_events es = groups (\<lambda>e. (ev_type e, ev_day e)) es"

definition scan_events :: "parquet_partition list \<Rightarrow> prep_error + event list" where
  "scan_events partitions =
     (if partitions = [] then Inl IOError else Inr (concat (map snd partitions)))"

record data_store =
  ds_events :: "parquet_partition list"
  ds_agg_counts :: "counts_row list"
  ds_agg_revenue :: "revenue_row list"
  ds_agg_purchase :: "purchase_row list"

definition initial_state :: load_state where
  "initial_state = \<lparr>events_table = [], total_rows = 0, printed = []\<rparr>"

text \<open>The export and the three rollup statements, in the order of the source; the first
  statement that fails ends the run.\<close>

definition write_store :: "event list \<Rightarrow> prep_error + data_store" where
  "write_store es =
     (let partitions = export_events es in
      case scan_events partitions of
        Inl e \<Rightarrow> Inl e
      | Inr es1 \<Rightarrow>
          (case scan_events partitions of
             Inl e \<Rightarrow> Inl e
           | Inr es2 \<Rightarrow>
               (case scan_events partitions of
                  Inl e \<Rightarrow> Inl e
                | Inr es3 \<Rightarrow>
                    Inr \<lparr>ds_events = partitions,
                         ds_agg_counts = agg_counts_by_advertiser_type es1,
                         ds_agg_revenue = agg_revenue_by_minute_publisher_country es2,
                         ds_agg_purchase = agg_purchase_summary es3\<rparr>)))"

text \<open>\<^verbatim>\<open>prepare_from_directory\<close>: \<open>csv_files\<close> is the sorted list of the files matching
  \<^verbatim>\<open>events_part_*.csv\<close>, each with its content.\<close>

definition prepare_from_directory ::
  "(frame \<Rightarrow> prep_error + event list) \<Rightarrow> (string \<times> csv_text) list
     \<Rightarrow> prep_error + (data_store \<times> log_line list)" where
  "prepare_from_directory insert_rows csv_files =
     (if csv_files = [] then Inl FileNotFoundError
      else
        (case load_batches insert_rows (length csv_files) 1 csv_files initial_state of
           Inl e \<Rightarrow> Inl e
         | Inr st \<Rightarrow>
             (case write_store (events_table st) of
                Inl e \<Rightarrow> Inl e
              | Inr store \<Rightarrow> Inr (store, printed st))))"

text \<open>\<^verbatim>\<open>prepare_from_zip\<close> differs in how it finds the files: the names of the archive
  that end in \<^verbatim>\<open>.csv\<close>, contain \<^verbatim>\<open>events_part_\<close> and do not contain \<^verbatim>\<open>__MACOSX\<close>. The
  loop, the export and the rollups are the same statements.\<close>

definition ends_with :: "string \<Rightarrow> string \<Rightarrow> bool" where
  "ends_with s suffix = is_prefix (rev suffix) (rev s)"

definition zip_csv_file :: "string \<Rightarrow> bool" where
  "zip_csv_file f =
     (ends_with f ''.csv'' \<and> occurs_in ''events_part_'' f \<and> \<not> occurs_in ''__MACOSX'' f)"

definition prepare_from_zip ::
  "(frame \<Rightarrow> prep_error + event list) \<Rightarrow> (string \<times> csv_text) list
     \<Rightarrow> prep_error + (data_store \<times> log_line list)" where
  "prepare_from_zip insert_rows namelist =
     prepare_from_directory insert_rows (filter (\<lambda>(f, content). zip_csv_file f) namelist)"

text \<open>As committed, \<^verbatim>\<open>prepare.py\<close> has a stray token \<^verbatim>\<open>go\<close> at line 458, inside the
  \<^verbatim>\<open>__main__\<close> block and before an indented line, so the module does not compile until
  that line is removed. The two functions are translated as they are written.\<close>


section \<open>What the rewritten queries compute\<close>

text \<open>
  The rewritten SQL runs on a rollup. The two templates whose results are examined below
  are translated like the SQL of the rollups. A literal \<^verbatim>\<open>'{v}'\<close> of the template is the
  text \<open>py_str v\<close>; the column \<^verbatim>\<open>day\<close> holds ISO dates, which compare as text. ORDER BY
  does not change the set of result rows and is left out. A result row is the list of
  its cells in SELECT order.
\<close>

datatype sqlval = VNull | VStr string | VInt int | VNum real

fun str_cell :: "string option \<Rightarrow> sqlval" where
  "str_cell None = VNull"
| "str_cell (Some s) = VStr s"

fun int_cell :: "int option \<Rightarrow> sqlval" where
  "int_cell None = VNull"
| "int_cell (Some i) = VInt i"

fun num_cell :: "real option \<Rightarrow> sqlval" where
  "num_cell None = VNull"
| "num_cell (Some r) = VNum r"

fun str_le :: "string \<Rightarrow> string \<Rightarrow> bool" where
  "str_le [] ys = True"
| "str_le (x # xs) [] = False"
| "str_le (x # xs) (y # ys) =
     ((of_char x :: nat) < of_char y \<or> (x = y \<and> str_le xs ys))"

definition sql_between :: "string option \<Rightarrow> string \<Rightarrow> string \<Rightarrow> bool" where
  "sql_between v lo hi = (case v of None \<Rightarrow> False | Some s \<Rightarrow> str_le lo s \<and> str_le s hi)"

text \<open>Q2: \<^verbatim>\<open>SELECT publisher_id, SUM(total_revenue) FROM <revenue rollup>
  WHERE country = '{country_filter}' AND day BETWEEN '{day_start}' AND '{day_end}'
  GROUP BY publisher_id\<close>\<close>

definition exec_q2 :: "pyval \<Rightarrow> pyval \<Rightarrow> pyval \<Rightarrow> revenue_row list \<Rightarrow> sqlval list list" where
  "exec_q2 country_filter day_start day_end rollup =
     map (\<lambda>(k, g). [int_cell k, num_cell (sql_sum (map rr_total_revenue g))])
       (groups rr_publisher_id
          (filter (\<lambda>r. rr_country r = Some (py_str country_filter)
                       \<and> sql_between (rr_day r) (py_str day_start) (py_str day_end)) rollup))"

text \<open>Q3: \<^verbatim>\<open>SELECT country, sum_of_price / count_of_purchases FROM <purchase rollup>\<close>\<close>

definition exec_q3 :: "purchase_row list \<Rightarrow> sqlval list list" where
  "exec_q3 rollup =
     map (\<lambda>r. [str_cell (pr_country r),
                num_cell (sql_div (pr_sum_of_price r) (pr_count_of_purchases r))]) rollup"

text \<open>\<^verbatim>\<open>AVG(total_price)\<close> taken directly over the purchase events of one country.\<close>

definition direct_avg :: "event list \<Rightarrow> string option \<Rightarrow> real option" where
  "direct_avg es c =
     sql_avg (map ev_total_price
       (filter (\<lambda>e. ev_country e = c) (filter (\<lambda>e. ev_type e = Some ''purchase'') es)))"

subsection \<open>The Fallback Assembler's query\<close>

text \<open>
  Modelled from the spec: \<^verbatim>\<open>assembler.py\<close> (\<^verbatim>\<open>assemble_sql\<close>, the Fallback Assembler that
  \<^verbatim>\<open>run.py\<close> calls when the router returns None) is not among the source files. The spec
  (4.4) gives its contract: a query over the full events dataset that means what the
  descriptor says, with \<^verbatim>\<open>eq\<close> as equality, \<^verbatim>\<open>between\<close> as an inclusive range, the
  aggregates SUM, AVG and COUNT, and grouping by the \<^verbatim>\<open>group_by\<close> columns. The functions
  \<open>event_col\<close>, \<open>literal\<close>, \<open>sql_le\<close>, \<open>filter_holds\<close>, \<open>select_item\<close> and
  \<open>fallback_result\<close> give the result of that query.
\<close>

definition event_col :: "string \<Rightarrow> event \<Rightarrow> sqlval" where
  "event_col c e =
     (if c = ''ts'' then str_cell (ev_ts e)
      else if c = ''week'' then str_cell (ev_week e)
      else if c = ''day'' then str_cell (ev_day e)
      else if c = ''hour'' then str_cell (ev_hour e)
      else if c = ''minute'' then str_cell (ev_minute e)
      else if c = ''type'' then str_cell (ev_type e)
      else if c = ''auction_id'' then str_cell (ev_auction_id e)
      else if c = ''advertiser_id'' then int_cell (ev_advertiser_id e)
      else if c = ''publisher_id'' then int_cell (ev_publisher_id e)
      else if c = ''bid_price'' then num_cell (ev_bid_price e)
      else if c = ''user_id'' then int_cell (ev_user_id e)
      else if c = ''total_price'' then num_cell (ev_total_price e)
      else if c = ''country'' then str_cell (ev_country e)
      else VNull)"

fun literal :: "pyval \<Rightarrow> sqlval" where
  "literal (PStr s) = VStr s"
| "literal (PInt i) = VInt i"
| "literal _ = VNull"

fun cell_number :: "sqlval \<Rightarrow> real option" where
  "cell_number (VNum r) = Some r"
| "cell_number (VInt i) = Some (of_int i)"
| "cell_number _ = None"

fun cell_value :: "sqlval \<Rightarrow> sqlval option" where
  "cell_value VNull = None"
| "cell_value v = Some v"

fun sql_le :: "sqlval \<Rightarrow> sqlval \<Rightarrow> bool" where
  "sql_le (VStr a) (VStr b) = str_le a b"
| "sql_le a b =
     (case (cell_number a, cell_number b) of (Some x, Some y) \<Rightarrow> x \<le> y | _ \<Rightarrow> False)"

fun filter_holds :: "event \<Rightarrow> pyval \<Rightarrow> bool" where
  "filter_holds e (PDict kvs) =
     (case (map_of kvs ''col'', map_of kvs ''op'', map_of kvs ''val'') of
        (Some (PStr c), Some (PStr op), Some v) \<Rightarrow>
          if op = ''eq'' then event_col c e \<noteq> VNull \<and> event_col c e = literal v
          else if op = ''between'' then
            (case v of
               PList [lo, hi] \<Rightarrow>
                 sql_le (literal lo) (event_col c e) \<and> sql_le (event_col c e) (literal hi)
             | _ \<Rightarrow> False)
          else False
      | _ \<Rightarrow> False)"
| "filter_holds e _ = False"

fun select_item :: "event list \<Rightarrow> pyval \<Rightarrow> sqlval" where
  "select_item g (PStr c) = (case g of [] \<Rightarrow> VNull | e # _ \<Rightarrow> event_col c e)"
| "select_item g (PDict [(f, PStr c)]) =
     (if f = ''SUM'' then num_cell (sql_sum (map (\<lambda>e. cell_number (event_col c e)) g))
      else if f = ''AVG'' then num_cell (sql_avg (map (\<lambda>e. cell_number (event_col c e)) g))
      else if f = ''COUNT'' then
        (if c = ''*'' then VInt (sql_count_star g)
         else VInt (sql_count (map (\<lambda>e. cell_value (event_col c e)) g)))
      else VNull)"
| "select_item g _ = VNull"

fun column_name :: "pyval \<Rightarrow> string" where
  "column_name (PStr c) = c"
| "column_name _ = []"

fun entries :: "pyval option \<Rightarrow> pyval list" where
  "entries (Some (PList xs)) = xs"
| "entries _ = []"

text \<open>Modelled from the spec: the result set of the query that the Fallback Assembler
  (\<^verbatim>\<open>assembler.py\<close>, not among the source files) builds for a descriptor, over the full
  events table: the rows that satisfy every filter, grouped by the \<^verbatim>\<open>group_by\<close> columns,
  one result row per group with the cells of the \<^verbatim>\<open>select\<close> list in order.\<close>

fun fallback_result :: "pyval \<Rightarrow> event list \<Rightarrow> sqlval list list" where
  "fallback_result (PDict kvs) es =
     map (\<lambda>(k, g). map (select_item g) (entries (map_of kvs ''select'')))
       (groups (\<lambda>e. map (\<lambda>c. event_col (column_name c) e) (entries (map_of kvs ''group_by'')))
          (filter (\<lambda>e. list_all (filter_holds e) (entries (map_of kvs ''where''))) es))"
| "fallback_result _ es = []"

text \<open>Two results are the same when each row of one has a row of the other whose cells
  are equal or are numbers no further apart than one millionth, whatever the order of
  the rows.\<close>

definition cell_close :: "sqlval \<Rightarrow> sqlval \<Rightarrow> bool" where
  "cell_close a b =
     (a = b \<or> (case (cell_number a, cell_number b) of
                  (Some x, Some y) \<Rightarrow> \<bar>x - y\<bar> \<le> 1 / 1000000
                | _ \<Rightarrow> False))"

definition same_result :: "sqlval list list \<Rightarrow> sqlval list list \<Rightarrow> bool" where
  "same_result rs ss =
     (list_all (\<lambda>r. list_ex (\<lambda>s. list_all2 cell_close r s) ss) rs
      \<and> list_all (\<lambda>s. list_ex (\<lambda>r. list_all2 cell_close r s) rs) ss)"

section \<open>The router and the descriptor as the spec words them\<close>

text \<open>The spec's router tries the rules in priority order and returns the first match,
  None when there is none. An exception of a rule that is reached ends the call.\<close>

fun first_match :: "(pyerr + string option) list \<Rightarrow> pyerr + string option" where
  "first_match [] = Inr None"
| "first_match (Inl e # rs) = Inl e"
| "first_match (Inr (Some sql) # rs) = Inr (Some sql)"
| "first_match (Inr None # rs) = first_match rs"

text \<open>The filters a rule iterates over, and what one filter says.\<close>

definition filters_of :: "pyval \<Rightarrow> pyval list" where
  "filters_of q =
     (case py_get q ''where'' (PList []) of
        Inl e \<Rightarrow> []
      | Inr whr \<Rightarrow> (case py_iter whr of Inl e \<Rightarrow> [] | Inr ws \<Rightarrow> ws))"

definition filter_on :: "string \<Rightarrow> string \<Rightarrow> pyval \<Rightarrow> bool" where
  "filter_on c op w =
     (py_get w ''col'' PNone = Inr (PStr c) \<and> py_get w ''op'' PNone = Inr (PStr op))"

definition filter_val :: "pyval \<Rightarrow> pyval" where
  "filter_val w = (case py_get w ''val'' PNone of Inl e \<Rightarrow> PNone | Inr v \<Rightarrow> v)"

text \<open>The data model of the spec (section 3), as far as the rules depend on it: the
  descriptor is a dictionary; \<^verbatim>\<open>select\<close>, \<^verbatim>\<open>where\<close>, \<^verbatim>\<open>group_by\<close> and \<^verbatim>\<open>order_by\<close> are
  lists when they are present; a filter is a dictionary, and a \<^verbatim>\<open>between\<close> filter carries
  a two-element list; a grouping column is a string; an ordering is a dictionary whose
  \<^verbatim>\<open>dir\<close>, when present, is a string.\<close>

fun is_str :: "pyval \<Rightarrow> bool" where
  "is_str (PStr s) = True"
| "is_str _ = False"

fun wf_filter :: "pyval \<Rightarrow> bool" where
  "wf_filter (PDict kvs) =
     (case map_of kvs ''val'' of
        Some (PList [lo, hi]) \<Rightarrow> True
      | _ \<Rightarrow> map_of kvs ''op'' \<noteq> Some (PStr ''between''))"
| "wf_filter _ = False"

fun wf_ordering :: "pyval \<Rightarrow> bool" where
  "wf_ordering (PDict kvs) =
     (case map_of kvs ''dir'' of None \<Rightarrow> True | Some d \<Rightarrow> is_str d)"
| "wf_ordering _ = False"

fun list_field :: "(pyval \<Rightarrow> bool) \<Rightarrow> pyval option \<Rightarrow> bool" where
  "list_field P None = True"
| "list_field P (Some (PList xs)) = list_all P xs"
| "list_field P (Some v) = False"

fun well_formed :: "pyval \<Rightarrow> bool" where
  "well_formed (PDict kvs) =
     (list_field (\<lambda>s. True) (map_of kvs ''select'')
      \<and> list_field wf_filter (map_of kvs ''where'')
      \<and> list_field is_str (map_of kvs ''group_by'')
      \<and> list_field wf_ordering (map_of kvs ''order_by''))"
| "well_formed _ = False"

text \<open>The value the loop of Q2 can hold for the day range of a well-formed
  descriptor: still None, or a two-element list.\<close>

definition unset_or_pair :: "pyval \<Rightarrow> bool" where
  "unset_or_pair d = (d = PNone \<or> (\<exists>a b. d = PList [a, b]))"

text \<open>What a run loads: the rows the engine returns for each file whose frame is not
  empty, in the order of the files.\<close>

definition inserted :: "(frame \<Rightarrow> prep_error + event list) \<Rightarrow> frame \<Rightarrow> event list" where
  "inserted insert_rows df = (case insert_rows df of Inl e \<Rightarrow> [] | Inr new_rows \<Rightarrow> new_rows)"

definition batch_rows :: "(frame \<Rightarrow> prep_error + event list) \<Rightarrow> csv_text \<Rightarrow> event list" where
  "batch_rows insert_rows content =
     (case read_csv content of
        Inl e \<Rightarrow> []
      | Inr df \<Rightarrow> if frame_empty df then [] else inserted insert_rows df)"

definition loaded_rows ::
  "(frame \<Rightarrow> prep_error + event list) \<Rightarrow> (string \<times> csv_text) list \<Rightarrow> event list" where
  "loaded_rows insert_rows fs = concat (map (\<lambda>(f, content). batch_rows insert_rows content) fs)"

text \<open>A file whose batch is empty: it has the line of column names and no row.\<close>

definition empty_batch :: "csv_text \<Rightarrow> bool" where
  "empty_batch content = (csv_header content \<noteq> [] \<and> csv_rows content = [])"

text \<open>A file that the loop can take in: it has the line of column names, and the
  engine accepts its frame if it has rows.\<close>

definition loadable :: "(frame \<Rightarrow> prep_error + event list) \<Rightarrow> csv_text \<Rightarrow> bool" where
  "loadable insert_rows content =
     (csv_header content \<noteq> []
      \<and> (csv_rows content = []
         \<or> (case insert_rows \<lparr>columns = csv_header content, cells = csv_rows content\<rparr> of
               Inl e \<Rightarrow> False | Inr new_rows \<Rightarrow> True)))"

text \<open>The base dataset as \<^verbatim>\<open>run.py\<close> and \<^verbatim>\<open>prepare.py\<close> read it:
  \<^verbatim>\<open>read_parquet('{DATA_STORE}/events/*/*/*.parquet', ...)\<close>.\<close>

definition events_source :: string where
  "events_source =
     ''read_parquet('' @ [squote_char] @ DATA_STORE @ ''/events/*/*/*.parquet'' @ [squote_char]"

section \<open>Descriptors and data used as examples\<close>

definition agg :: "string \<Rightarrow> string \<Rightarrow> pyval" where
  "agg f c = PDict [(f, PStr c)]"

definition flt :: "string \<Rightarrow> string \<Rightarrow> pyval \<Rightarrow> pyval" where
  "flt c op v = PDict [(''col'', PStr c), (''op'', PStr op), (''val'', v)]"

definition ordering :: "string \<Rightarrow> string \<Rightarrow> pyval" where
  "ordering c d = PDict [(''col'', PStr c), (''dir'', PStr d)]"

definition descriptor :: "pyval list \<Rightarrow> pyval list \<Rightarrow> pyval list \<Rightarrow> pyval list \<Rightarrow> pyval" where
  "descriptor select whr group_by order_by =
     PDict [(''select'', PList select), (''from'', PStr ''events''), (''where'', PList whr),
            (''group_by'', PList group_by), (''order_by'', PList order_by)]"

text \<open>The five benchmark shapes of the rules' docstrings.\<close>

definition q1_descriptor :: pyval where
  "q1_descriptor =
     descriptor [PStr ''day'', agg ''SUM'' ''bid_price'']
       [flt ''type'' ''eq'' (PStr ''impression'')] [PStr ''day''] []"

definition q2_descriptor :: pyval where
  "q2_descriptor =
     descriptor [PStr ''publisher_id'', agg ''SUM'' ''bid_price'']
       [flt ''type'' ''eq'' (PStr ''impression''), flt ''country'' ''eq'' (PStr ''JP''),
        flt ''day'' ''between'' (PList [PStr ''2024-10-20'', PStr ''2024-10-23''])]
       [PStr ''publisher_id''] []"

definition q3_descriptor :: pyval where
  "q3_descriptor =
     descriptor [PStr ''country'', agg ''AVG'' ''total_price'']
       [flt ''type'' ''eq'' (PStr ''purchase'')] [PStr ''country'']
       [ordering ''AVG(total_price)'' ''desc'']"

definition q4_descriptor :: pyval where
  "q4_descriptor =
     descriptor [PStr ''advertiser_id'', PStr ''type'', agg ''COUNT'' ''*''] []
       [PStr ''advertiser_id'', PStr ''type''] [ordering ''COUNT(*)'' ''desc'']"

definition q5_descriptor :: pyval where
  "q5_descriptor =
     descriptor [PStr ''minute'', agg ''SUM'' ''bid_price'']
       [flt ''type'' ''eq'' (PStr ''impression''), flt ''day'' ''eq'' (PStr ''2024-06-01'')]
       [PStr ''minute''] [ordering ''minute'' ''asc'']"

text \<open>Q2's shape with one more filter, \<^verbatim>\<open>publisher_id = 1\<close>.\<close>

definition q2_extra_filter :: pyval where
  "q2_extra_filter =
     descriptor [PStr ''publisher_id'', agg ''SUM'' ''bid_price'']
       [flt ''type'' ''eq'' (PStr ''impression''), flt ''country'' ''eq'' (PStr ''JP''),
        flt ''day'' ''between'' (PList [PStr ''2024-10-20'', PStr ''2024-10-23'']),
        flt ''publisher_id'' ''eq'' (PInt 1)]
       [PStr ''publisher_id''] []"

text \<open>Q1's and Q2's shapes with an \<^verbatim>\<open>order_by\<close>.\<close>

definition q1_ordered :: pyval where
  "q1_ordered =
     descriptor [PStr ''day'', agg ''SUM'' ''bid_price'']
       [flt ''type'' ''eq'' (PStr ''impression'')] [PStr ''day'']
       [ordering ''SUM(bid_price)'' ''desc'']"

definition q2_ordered :: pyval where
  "q2_ordered =
     descriptor [PStr ''publisher_id'', agg ''SUM'' ''bid_price'']
       [flt ''type'' ''eq'' (PStr ''impression''), flt ''country'' ''eq'' (PStr ''JP''),
        flt ''day'' ''between'' (PList [PStr ''2024-10-20'', PStr ''2024-10-23''])]
       [PStr ''publisher_id''] [ordering ''publisher_id'' ''asc'']"

text \<open>Q5's shape ordered by its aggregate.\<close>

definition q5_by_revenue :: pyval where
  "q5_by_revenue =
     descriptor [PStr ''minute'', agg ''SUM'' ''bid_price'']
       [flt ''type'' ''eq'' (PStr ''impression''), flt ''day'' ''eq'' (PStr ''2024-06-01'')]
       [PStr ''minute''] [ordering ''SUM(bid_price)'' ''desc'']"

text \<open>Q1's shape with the grain column written twice, and Q4's shape with its two
  columns in the other order and one of them repeated.\<close>

definition q1_day_twice :: pyval where
  "q1_day_twice =
     descriptor [PStr ''day'', agg ''SUM'' ''bid_price'']
       [flt ''type'' ''eq'' (PStr ''impression'')] [PStr ''day'', PStr ''day''] []"

definition q4_reordered :: pyval where
  "q4_reordered =
     descriptor [PStr ''advertiser_id'', PStr ''type'', agg ''COUNT'' ''*''] []
       [PStr ''type'', PStr ''advertiser_id'', PStr ''type''] [ordering ''COUNT(*)'' ''desc'']"

text \<open>Q4's shape grouped by a third column as well.\<close>

definition q4_with_country :: pyval where
  "q4_with_country =
     descriptor [PStr ''advertiser_id'', PStr ''type'', agg ''COUNT'' ''*''] []
       [PStr ''advertiser_id'', PStr ''type'', PStr ''country''] [ordering ''COUNT(*)'' ''desc'']"

text \<open>Q1's shape with a filter that is a string instead of a dictionary.\<close>

definition q1_string_filter :: pyval where
  \<open>q1_string_filter =
     descriptor [PStr ''day'', agg ''SUM'' ''bid_price'']
       [PStr ''type = "impression"''] [PStr ''day''] []\<close>

text \<open>Q4's shape ordered by an expression that reads the base dataset.\<close>

definition q4_order_by_subquery :: pyval where
  "q4_order_by_subquery =
     descriptor [PStr ''advertiser_id'', PStr ''type'', agg ''COUNT'' ''*''] []
       [PStr ''advertiser_id'', PStr ''type'']
       [ordering (''(SELECT COUNT(*) FROM '' @ events_source @ '', hive_partitioning = 1))'')
          ''desc'']"

definition blank_event :: event where
  "blank_event =
     \<lparr>ev_ts = None, ev_week = None, ev_day = None, ev_hour = None, ev_minute = None,
      ev_type = None, ev_auction_id = None, ev_advertiser_id = None,
      ev_publisher_id = None, ev_bid_price = None, ev_user_id = None,
      ev_total_price = None, ev_country = None\<rparr>"

definition impression :: "string \<Rightarrow> string \<Rightarrow> string \<Rightarrow> int \<Rightarrow> real \<Rightarrow> event" where
  "impression c d m p b =
     blank_event\<lparr>ev_type := Some ''impression'', ev_country := Some c, ev_day := Some d,
                 ev_minute := Some m, ev_publisher_id := Some p, ev_bid_price := Some b\<rparr>"

definition purchase :: "string \<Rightarrow> real option \<Rightarrow> event" where
  "purchase c t =
     blank_event\<lparr>ev_type := Some ''purchase'', ev_country := Some c, ev_total_price := t\<rparr>"

definition two_publishers :: "event list" where
  "two_publishers =
     [impression ''JP'' ''2024-10-21'' ''2024-10-21 10:00'' 1 1,
      impression ''JP'' ''2024-10-21'' ''2024-10-21 10:00'' 2 2]"

definition jp_purchases :: "event list" where
  "jp_purchases =
     [purchase ''JP'' (Some 100), purchase ''JP'' (Some 50), purchase ''JP'' None,
      impression ''JP'' ''2024-10-21'' ''2024-10-21 10:00'' 1 7, purchase ''JP'' (Some 150)]"

definition zero_bytes :: csv_text where
  "zero_bytes = \<lparr>csv_header = [], csv_rows = []\<rparr>"

definition header_only :: csv_text where
  "header_only = \<lparr>csv_header = [''ts'', ''type'', ''country'', ''total_price''], csv_rows = []\<rparr>"

definition one_row :: csv_text where
  "one_row =
     \<lparr>csv_header = [''ts'', ''type'', ''country'', ''total_price''],
      csv_rows = [[Some ''1718000000000'', Some ''purchase'', Some ''JP'', Some ''100.0'']]\<rparr>"

definition insert_jp_purchase :: "frame \<Rightarrow> prep_error + event list" where
  "insert_jp_purchase df = Inr (map (\<lambda>r. purchase ''JP'' (Some 100)) (cells df))"

definition two_files :: "(string \<times> csv_text) list" where
  "two_files = [(''events_part_00000.csv'', header_only), (''events_part_00001.csv'', one_row)]"

definition zero_byte_first :: "(string \<times> csv_text) list" where
  "zero_byte_first = [(''events_part_00000.csv'', zero_bytes), (''events_part_00001.csv'', one_row)]"

definition header_only_files :: "(string \<times> csv_text) list" where
  "header_only_files =
     [(''events_part_00000.csv'', header_only), (''events_part_00001.csv'', header_only)]"

section \<open>Properties\<close>

lemmas descriptor_defs = descriptor_def agg_def flt_def ordering_def

lemmas sql_text_defs = read_parquet_def squote_def squote_char_def DATA_STORE_def
  agg_revenue_def agg_counts_def agg_purchase_def

lemma bind_res_Inr_iff: "bind_res m f = Inr y \<longleftrightarrow> (\<exists>x. m = Inr x \<and> f x = Inr y)"
  by (cases m) auto

subsection \<open>What a rule returns when it matches\<close>

lemma try_q1_shape: "try_q1_pattern q = Inr (Some s) \<Longrightarrow> s = q1_sql"
  by (auto simp: try_q1_pattern_def bind_res_Inr_iff split: if_splits)

lemma try_q2_shape: "try_q2_pattern q = Inr (Some s) \<Longrightarrow> \<exists>c a b. s = q2_sql c a b"
  by (auto simp: try_q2_pattern_def bind_res_Inr_iff split: if_splits prod.splits)

lemma try_q3_shape: "try_q3_pattern q = Inr (Some s) \<Longrightarrow> \<exists>c. s = q3_sql c"
  by (auto simp: try_q3_pattern_def bind_res_Inr_iff split: if_splits)

lemma try_q4_shape: "try_q4_pattern q = Inr (Some s) \<Longrightarrow> \<exists>c. s = q4_sql c"
  by (auto simp: try_q4_pattern_def bind_res_Inr_iff split: if_splits)

lemma try_q5_shape: "try_q5_pattern q = Inr (Some s) \<Longrightarrow> \<exists>d c. s = q5_sql d c"
  by (auto simp: try_q5_pattern_def bind_res_Inr_iff split: if_splits prod.splits)

lemma q1_sql_nonempty: "q1_sql \<noteq> []"
  by (simp add: q1_sql_def q1_head_def)

lemma q2_sql_nonempty: "q2_sql c a b \<noteq> []"
  by (simp add: q2_sql_def q2_head_def)

lemma q3_sql_nonempty: "q3_sql c \<noteq> []"
  by (simp add: q3_sql_def q3_head_def)

lemma q4_sql_nonempty: "q4_sql c \<noteq> []"
  by (simp add: q4_sql_def q4_head_def)

lemma q5_sql_nonempty: "q5_sql d c \<noteq> []"
  by (simp add: q5_sql_def q5_head_def)

lemma try_q1_nonempty: "try_q1_pattern q = Inr (Some s) \<Longrightarrow> s \<noteq> []"
  by (auto dest!: try_q1_shape simp: q1_sql_nonempty)

lemma try_q2_nonempty: "try_q2_pattern q = Inr (Some s) \<Longrightarrow> s \<noteq> []"
  by (auto dest!: try_q2_shape simp: q2_sql_nonempty)

lemma try_q3_nonempty: "try_q3_pattern q = Inr (Some s) \<Longrightarrow> s \<noteq> []"
  by (auto dest!: try_q3_shape simp: q3_sql_nonempty)

lemma try_q4_nonempty: "try_q4_pattern q = Inr (Some s) \<Longrightarrow> s \<noteq> []"
  by (auto dest!: try_q4_shape simp: q4_sql_nonempty)

lemma try_q5_nonempty: "try_q5_pattern q = Inr (Some s) \<Longrightarrow> s \<noteq> []"
  by (auto dest!: try_q5_shape simp: q5_sql_nonempty)

subsection \<open>The priority order of the router\<close>

lemma first_match_single: "first_match [r] = r"
proof (cases r)
  case (Inl e)
  then show ?thesis by simp
next
  case (Inr b)
  then show ?thesis by (cases b) simp_all
qed

lemma first_match_py_or:
  assumes "\<And>s. a = Inr (Some s) \<Longrightarrow> s \<noteq> []"
  shows "first_match (a # rs) = py_or a (first_match rs)"
proof (cases a)
  case (Inl e)
  then show ?thesis by (simp add: py_or_def)
next
  case (Inr r)
  show ?thesis
  proof (cases r)
    case None
    with Inr show ?thesis by (simp add: py_or_def)
  next
    case (Some s)
    with Inr assms have "s \<noteq> []" by simp
    with Inr Some show ?thesis by (simp add: py_or_def)
  qed
qed

text \<open>
  C3. \<open>route_query\<close> evaluates the five rules in the order Q1, Q2, Q3, Q4, Q5 and
  returns the result of the first rule that matches; the rules after it have no part in
  the result (\<open>first_match\<close> does not look at the rest of the list once a rule has
  matched), and the result is None when no rule matches. The source chains the rules
  with \<^verbatim>\<open>or\<close>, which tests truthiness; the two agree because no rule returns an empty
  string.
\<close>

theorem route_query_first_match:
  "route_query q =
     first_match [try_q1_pattern q, try_q2_pattern q, try_q3_pattern q, try_q4_pattern q,
                  try_q5_pattern q]"
  unfolding route_query_def
  by (simp only: first_match_py_or [OF try_q1_nonempty] first_match_py_or [OF try_q2_nonempty]
        first_match_py_or [OF try_q3_nonempty] first_match_py_or [OF try_q4_nonempty]
        first_match_single)

theorem route_query_first_match_witness:
  "route_query q5_descriptor =
     Inr (Some (q5_sql (PStr ''2024-06-01'') ''ORDER BY minute ASC''))"
proof -
  have "try_q1_pattern q5_descriptor = Inr None"
    by (simp add: try_q1_pattern_def q5_descriptor_def descriptor_defs)
  moreover have "try_q2_pattern q5_descriptor = Inr None"
    by (simp add: try_q2_pattern_def q5_descriptor_def descriptor_defs)
  moreover have "try_q3_pattern q5_descriptor = Inr None"
    by (simp add: try_q3_pattern_def q5_descriptor_def descriptor_defs)
  moreover have "try_q4_pattern q5_descriptor = Inr None"
    by (simp add: try_q4_pattern_def q5_descriptor_def descriptor_defs py_set_def)
  moreover have "try_q5_pattern q5_descriptor =
      Inr (Some (q5_sql (PStr ''2024-06-01'') ''ORDER BY minute ASC''))"
    by (simp add: try_q5_pattern_def q5_descriptor_def descriptor_defs order_clause_def
        order_part_def upper_char_def)
  ultimately show ?thesis
    using route_query_first_match [of q5_descriptor] by simp
qed

subsection \<open>The filters Q2 requires\<close>

text \<open>Each of the three variables of Q2's loop holds its initial value or the value of
  a filter of the matching kind.\<close>

lemma q2_filters_sources:
  "q2_filters ws (t0, c0, d0) = Inr (t, c, d) \<Longrightarrow>
     (t = t0 \<or> (\<exists>w\<in>set ws. filter_on ''type'' ''eq'' w \<and> filter_val w = t))
   \<and> (c = c0 \<or> (\<exists>w\<in>set ws. filter_on ''country'' ''eq'' w \<and> filter_val w = c))
   \<and> (d = d0 \<or> (\<exists>w\<in>set ws. filter_on ''day'' ''between'' w \<and> filter_val w = d))"
proof (induction ws arbitrary: t0 c0 d0)
  case Nil
  then show ?case by simp
next
  case (Cons w ws)
  from Cons.prems obtain col op val where
    g: "py_get w ''col'' PNone = Inr col" "py_get w ''op'' PNone = Inr op"
       "py_get w ''val'' PNone = Inr val"
    by (auto simp: bind_res_Inr_iff)
  consider (ty) "col = PStr ''type'' \<and> op = PStr ''eq''"
    | (co) "\<not> (col = PStr ''type'' \<and> op = PStr ''eq'')"
           "col = PStr ''country'' \<and> op = PStr ''eq''"
    | (da) "\<not> (col = PStr ''type'' \<and> op = PStr ''eq'')"
           "\<not> (col = PStr ''country'' \<and> op = PStr ''eq'')"
           "col = PStr ''day'' \<and> op = PStr ''between''"
    | (no) "\<not> (col = PStr ''type'' \<and> op = PStr ''eq'')"
           "\<not> (col = PStr ''country'' \<and> op = PStr ''eq'')"
           "\<not> (col = PStr ''day'' \<and> op = PStr ''between'')"
    by blast
  then show ?case
  proof cases
    case ty
    with Cons.prems g have "q2_filters ws (val, c0, d0) = Inr (t, c, d)" by simp
    from Cons.IH [OF this] ty g show ?thesis
      by (auto simp: filter_on_def filter_val_def)
  next
    case co
    with Cons.prems g have "q2_filters ws (t0, val, d0) = Inr (t, c, d)" by simp
    from Cons.IH [OF this] co g show ?thesis
      by (auto simp: filter_on_def filter_val_def)
  next
    case da
    with Cons.prems g have "q2_filters ws (t0, c0, val) = Inr (t, c, d)" by simp
    from Cons.IH [OF this] da g show ?thesis
      by (auto simp: filter_on_def filter_val_def)
  next
    case no
    with Cons.prems g have "q2_filters ws (t0, c0, d0) = Inr (t, c, d)" by simp
    from Cons.IH [OF this] show ?thesis
      by auto
  qed
qed

text \<open>
  C6. When \<open>try_q2_pattern\<close> matches, the filters of the descriptor include a filter
  \<^verbatim>\<open>type = 'impression'\<close>, an equality filter on \<^verbatim>\<open>country\<close> and a \<^verbatim>\<open>between\<close> filter on
  \<^verbatim>\<open>day\<close> (the last two with a value that is not empty). Read backwards: a descriptor
  that lacks one of the three is not matched by the rule.
\<close>

theorem q2_requires_three_filters:
  assumes "try_q2_pattern q = Inr (Some sql)"
  shows "(\<exists>w\<in>set (filters_of q). filter_on ''type'' ''eq'' w \<and> filter_val w = PStr ''impression'')
       \<and> (\<exists>w\<in>set (filters_of q). filter_on ''country'' ''eq'' w \<and> py_truthy (filter_val w))
       \<and> (\<exists>w\<in>set (filters_of q). filter_on ''day'' ''between'' w \<and> py_truthy (filter_val w))"
proof -
  from assms obtain whr ws t c d where
    w: "py_get q ''where'' (PList []) = Inr whr" "py_iter whr = Inr ws"
    and f: "q2_filters ws (PNone, PNone, PNone) = Inr (t, c, d)"
    and t: "t = PStr ''impression''" and c: "py_truthy c" and d: "py_truthy d"
    by (auto simp: try_q2_pattern_def bind_res_Inr_iff split: if_splits prod.splits)
  from w have fs: "filters_of q = ws" by (simp add: filters_of_def)
  from q2_filters_sources [OF f] t c d show ?thesis
    unfolding fs by auto
qed

lemma try_q2_q2_descriptor:
  "try_q2_pattern q2_descriptor =
     Inr (Some (q2_sql (PStr ''JP'') (PStr ''2024-10-20'') (PStr ''2024-10-23'')))"
  by (simp add: try_q2_pattern_def q2_descriptor_def descriptor_defs py_unpack2_def)

theorem q2_requires_three_filters_witness:
  "try_q2_pattern q2_descriptor =
     Inr (Some (q2_sql (PStr ''JP'') (PStr ''2024-10-20'') (PStr ''2024-10-23'')))
   \<and> (\<exists>w\<in>set (filters_of q2_descriptor).
         filter_on ''type'' ''eq'' w \<and> filter_val w = PStr ''impression'')
   \<and> (\<exists>w\<in>set (filters_of q2_descriptor).
         filter_on ''country'' ''eq'' w \<and> py_truthy (filter_val w))
   \<and> (\<exists>w\<in>set (filters_of q2_descriptor).
         filter_on ''day'' ''between'' w \<and> py_truthy (filter_val w))"
  using q2_requires_three_filters [OF try_q2_q2_descriptor] try_q2_q2_descriptor
  by blast

text \<open>A descriptor of Q2's shape without the day range, and one without the country,
  are not matched.\<close>

lemma q2_without_day_range:
  "try_q2_pattern
     (descriptor [PStr ''publisher_id'', agg ''SUM'' ''bid_price'']
        [flt ''type'' ''eq'' (PStr ''impression''), flt ''country'' ''eq'' (PStr ''JP'')]
        [PStr ''publisher_id''] []) = Inr None"
  by (simp add: try_q2_pattern_def descriptor_defs)

lemma q2_without_country:
  "try_q2_pattern
     (descriptor [PStr ''publisher_id'', agg ''SUM'' ''bid_price'']
        [flt ''type'' ''eq'' (PStr ''impression''),
         flt ''day'' ''between'' (PList [PStr ''2024-10-20'', PStr ''2024-10-23''])]
        [PStr ''publisher_id''] []) = Inr None"
  by (simp add: try_q2_pattern_def descriptor_defs)

subsection \<open>Filters a rule does not anticipate\<close>

text \<open>Q1 and Q3 match only when their one filter is the only filter, Q4 only when
  there is no filter, and Q5 only when every filter is one of its two.\<close>

lemma py_iter_len: "py_iter v = Inr ws \<Longrightarrow> py_len v = Inr (length ws)"
  by (cases v) auto

lemma is_eq_filter_True:
  "is_eq_filter c v w = Inr True \<Longrightarrow> filter_on c ''eq'' w \<and> filter_val w = PStr v"
  by (cases w) (auto simp: filter_on_def filter_val_def)

lemma py_any_single:
  assumes "py_any f ws = Inr True" "length ws \<le> 1"
  shows "\<exists>w. ws = [w] \<and> f w = Inr True"
proof (cases ws)
  case Nil
  with assms show ?thesis by simp
next
  case (Cons w rest)
  with assms(2) have "rest = []" by simp
  with Cons assms(1) show ?thesis
    by (auto split: sum.splits if_splits)
qed

lemma q1_filters_exact:
  assumes "try_q1_pattern q = Inr (Some s)"
  shows "\<exists>w. filters_of q = [w] \<and> filter_on ''type'' ''eq'' w \<and> filter_val w = PStr ''impression''"
proof -
  from assms obtain whr ws m where
    w: "py_get q ''where'' (PList []) = Inr whr" "py_iter whr = Inr ws"
    and a: "py_any (is_eq_filter ''type'' ''impression'') ws = Inr True"
    and l: "py_len whr = Inr m" "\<not> m > 1"
    by (auto simp: try_q1_pattern_def bind_res_Inr_iff split: if_splits)
  from w(2) l have "length ws \<le> 1" using py_iter_len by fastforce
  from py_any_single [OF a this] obtain x where
    "ws = [x]" "is_eq_filter ''type'' ''impression'' x = Inr True" by blast
  with w is_eq_filter_True show ?thesis
    by (auto simp: filters_of_def)
qed

lemma q3_filters_exact:
  assumes "try_q3_pattern q = Inr (Some s)"
  shows "\<exists>w. filters_of q = [w] \<and> filter_on ''type'' ''eq'' w \<and> filter_val w = PStr ''purchase''"
proof -
  from assms obtain whr ws m where
    w: "py_get q ''where'' (PList []) = Inr whr" "py_iter whr = Inr ws"
    and a: "py_any (is_eq_filter ''type'' ''purchase'') ws = Inr True"
    and l: "py_len whr = Inr m" "\<not> m > 1"
    by (auto simp: try_q3_pattern_def bind_res_Inr_iff split: if_splits)
  from w(2) l have "length ws \<le> 1" using py_iter_len by fastforce
  from py_any_single [OF a this] obtain x where
    "ws = [x]" "is_eq_filter ''type'' ''purchase'' x = Inr True" by blast
  with w is_eq_filter_True show ?thesis
    by (auto simp: filters_of_def)
qed

lemma falsy_no_filters: "\<not> py_truthy whr \<Longrightarrow> py_iter whr = Inr ws \<Longrightarrow> ws = []"
  by (cases whr) auto

lemma q4_no_filters:
  assumes "try_q4_pattern q = Inr (Some s)"
  shows "filters_of q = []"
proof -
  from assms obtain whr where
    w: "py_get q ''where'' (PList []) = Inr whr" and f: "\<not> py_truthy whr"
    by (auto simp: try_q4_pattern_def bind_res_Inr_iff split: if_splits)
  show ?thesis
  proof (cases "py_iter whr")
    case (Inl e)
    with w show ?thesis by (simp add: filters_of_def)
  next
    case (Inr ws)
    with falsy_no_filters [OF f Inr] w show ?thesis by (simp add: filters_of_def)
  qed
qed

lemma q5_filters_sources:
  "q5_filters ws (t0, d0) = Inr (t, d) \<Longrightarrow>
     (t = t0 \<or> (\<exists>w\<in>set ws. filter_on ''type'' ''eq'' w \<and> filter_val w = t))
   \<and> (d = d0 \<or> (\<exists>w\<in>set ws. filter_on ''day'' ''eq'' w \<and> filter_val w = d))"
proof (induction ws arbitrary: t0 d0)
  case Nil
  then show ?case by simp
next
  case (Cons w ws)
  from Cons.prems obtain col op val where
    g: "py_get w ''col'' PNone = Inr col" "py_get w ''op'' PNone = Inr op"
       "py_get w ''val'' PNone = Inr val"
    by (auto simp: bind_res_Inr_iff)
  consider (ty) "col = PStr ''type'' \<and> op = PStr ''eq''"
    | (da) "\<not> (col = PStr ''type'' \<and> op = PStr ''eq'')" "col = PStr ''day'' \<and> op = PStr ''eq''"
    | (no) "\<not> (col = PStr ''type'' \<and> op = PStr ''eq'')" "\<not> (col = PStr ''day'' \<and> op = PStr ''eq'')"
    by blast
  then show ?case
  proof cases
    case ty
    with Cons.prems g have "q5_filters ws (val, d0) = Inr (t, d)" by simp
    from Cons.IH [OF this] ty g show ?thesis
      by (auto simp: filter_on_def filter_val_def)
  next
    case da
    with Cons.prems g have "q5_filters ws (t0, val) = Inr (t, d)" by simp
    from Cons.IH [OF this] da g show ?thesis
      by (auto simp: filter_on_def filter_val_def)
  next
    case no
    with Cons.prems g have "q5_filters ws (t0, d0) = Inr (t, d)" by simp
    from Cons.IH [OF this] show ?thesis
      by auto
  qed
qed

lemma two_of_at_most_two:
  assumes "a \<in> set ws" "b \<in> set ws" "a \<noteq> b" "length ws \<le> 2"
  shows "set ws = {a, b}"
proof -
  from assms(4) consider "ws = []" | x where "ws = [x]" | x y where "ws = [x, y]"
    by (cases ws; cases "tl ws"; cases "tl (tl ws)") auto
  then show ?thesis using assms(1-3) by cases auto
qed

lemma q5_filters_exact:
  assumes "try_q5_pattern q = Inr (Some s)"
  shows "\<forall>w\<in>set (filters_of q).
           (filter_on ''type'' ''eq'' w \<and> filter_val w = PStr ''impression'')
           \<or> (filter_on ''day'' ''eq'' w \<and> py_truthy (filter_val w))"
proof -
  from assms obtain whr ws t d m where
    w: "py_get q ''where'' (PList []) = Inr whr" "py_iter whr = Inr ws"
    and f: "q5_filters ws (PNone, PNone) = Inr (t, d)"
    and t: "t = PStr ''impression''" and d: "py_truthy d"
    and l: "py_len whr = Inr m" "\<not> m > 2"
    by (auto simp: try_q5_pattern_def bind_res_Inr_iff split: if_splits prod.splits)
  from w(2) l have len: "length ws \<le> 2" using py_iter_len by fastforce
  from q5_filters_sources [OF f] t d obtain a b where
    a: "a \<in> set ws" "filter_on ''type'' ''eq'' a" "filter_val a = PStr ''impression''"
    and b: "b \<in> set ws" "filter_on ''day'' ''eq'' b" "py_truthy (filter_val b)"
    by auto
  from a(2) b(2) have "a \<noteq> b" by (auto simp: filter_on_def)
  from two_of_at_most_two [OF a(1) b(1) this len] have "set ws = {a, b}" .
  with a b w show ?thesis
    by (auto simp: filters_of_def)
qed

text \<open>
  C2. The claim fails for Q2. The loop of \<open>try_q2_pattern\<close> skips a filter that is none
  of its three kinds and the rule never counts the filters, so the descriptor
  \<open>q2_extra_filter\<close>, which adds \<^verbatim>\<open>publisher_id = 1\<close> to Q2's shape, is matched and gets
  the same SQL as \<open>q2_descriptor\<close>: the added filter is dropped. Q1, Q3 and Q5 count the
  filters (\<^verbatim>\<open>len(where) > 1\<close>, \<^verbatim>\<open>len(where) > 2\<close>) and Q4 accepts none, so for them
  the claim holds (\<open>q1_filters_exact\<close>, \<open>q3_filters_exact\<close>, \<open>q4_no_filters\<close>,
  \<open>q5_filters_exact\<close>).
\<close>

theorem q2_drops_unanticipated_filter:
  "try_q2_pattern q2_extra_filter =
     Inr (Some (q2_sql (PStr ''JP'') (PStr ''2024-10-20'') (PStr ''2024-10-23'')))
   \<and> try_q2_pattern q2_extra_filter = try_q2_pattern q2_descriptor
   \<and> flt ''publisher_id'' ''eq'' (PInt 1) \<in> set (filters_of q2_extra_filter)
   \<and> flt ''publisher_id'' ''eq'' (PInt 1) \<notin> set (filters_of q2_descriptor)"
proof -
  have "try_q2_pattern q2_extra_filter =
      Inr (Some (q2_sql (PStr ''JP'') (PStr ''2024-10-20'') (PStr ''2024-10-23'')))"
    by (simp add: try_q2_pattern_def q2_extra_filter_def descriptor_defs py_unpack2_def)
  moreover have "flt ''publisher_id'' ''eq'' (PInt 1) \<in> set (filters_of q2_extra_filter)"
    by (simp add: filters_of_def q2_extra_filter_def descriptor_defs)
  moreover have "flt ''publisher_id'' ''eq'' (PInt 1) \<notin> set (filters_of q2_descriptor)"
    by (simp add: filters_of_def q2_descriptor_def descriptor_defs)
  ultimately show ?thesis
    using try_q2_q2_descriptor by simp
qed

theorem q2_drops_unanticipated_filter_witness:
  "\<exists>sql. try_q2_pattern q2_extra_filter = Inr (Some sql)
         \<and> try_q2_pattern q2_descriptor = Inr (Some sql)"
  using q2_drops_unanticipated_filter by metis

subsection \<open>The order_by of a matched descriptor\<close>

text \<open>Q3, Q4 and Q5 write the clause, Q3 and Q4 with the alias of their aggregate.\<close>

lemma try_q3_q3_descriptor:
  \<open>try_q3_pattern q3_descriptor = Inr (Some (q3_sql ''ORDER BY "avg(total_price)" DESC''))\<close>
  by (simp add: try_q3_pattern_def q3_descriptor_def descriptor_defs order_clause_def
      order_part_def q3_alias_def upper_char_def)

lemma try_q4_q4_descriptor:
  \<open>try_q4_pattern q4_descriptor = Inr (Some (q4_sql ''ORDER BY "count_star()" DESC''))\<close>
  by (simp add: try_q4_pattern_def q4_descriptor_def descriptor_defs order_clause_def
      order_part_def q4_alias_def upper_char_def py_set_def)

lemma try_q5_q5_descriptor:
  "try_q5_pattern q5_descriptor =
     Inr (Some (q5_sql (PStr ''2024-06-01'') ''ORDER BY minute ASC''))"
  by (simp add: try_q5_pattern_def q5_descriptor_def descriptor_defs order_clause_def
      order_part_def upper_char_def)

text \<open>Q5 replaces no expression: an ordering by \<^verbatim>\<open>SUM(bid_price)\<close> is written as it is,
  not as the alias \<^verbatim>\<open>"sum(bid_price)"\<close> of the rollup query.\<close>

lemma q5_passes_aggregate_through:
  "try_q5_pattern q5_by_revenue =
     Inr (Some (q5_sql (PStr ''2024-06-01'') ''ORDER BY SUM(bid_price) DESC''))"
  by (simp add: try_q5_pattern_def q5_by_revenue_def descriptor_defs order_clause_def
      order_part_def upper_char_def)

lemma try_q1_q1_descriptor: "try_q1_pattern q1_descriptor = Inr (Some q1_sql)"
  by (simp add: try_q1_pattern_def q1_descriptor_def descriptor_defs)

text \<open>
  C4. The claim fails for Q1 and Q2. Neither rule reads \<^verbatim>\<open>order_by\<close>, and their templates
  have no ORDER BY: \<open>q1_ordered\<close> (Q1's shape ordered by \<^verbatim>\<open>SUM(bid_price)\<close> descending) and
  \<open>q2_ordered\<close> (Q2's shape ordered by \<^verbatim>\<open>publisher_id\<close>) are matched and get the SQL of
  the same descriptors without an order, in which the text \<^verbatim>\<open>ORDER BY\<close> does not occur.
\<close>

theorem q1_q2_ignore_order_by:
  "try_q1_pattern q1_ordered = Inr (Some q1_sql)
   \<and> try_q1_pattern q1_descriptor = Inr (Some q1_sql)
   \<and> \<not> occurs_in ''ORDER BY'' q1_sql
   \<and> try_q2_pattern q2_ordered =
       Inr (Some (q2_sql (PStr ''JP'') (PStr ''2024-10-20'') (PStr ''2024-10-23'')))
   \<and> try_q2_pattern q2_descriptor =
       Inr (Some (q2_sql (PStr ''JP'') (PStr ''2024-10-20'') (PStr ''2024-10-23'')))
   \<and> \<not> occurs_in ''ORDER BY'' (q2_sql (PStr ''JP'') (PStr ''2024-10-20'') (PStr ''2024-10-23''))"
proof -
  have "try_q1_pattern q1_ordered = Inr (Some q1_sql)"
    by (simp add: try_q1_pattern_def q1_ordered_def descriptor_defs)
  moreover have "\<not> occurs_in ''ORDER BY'' q1_sql"
    by (simp add: q1_sql_def q1_head_def sql_text_defs)
  moreover have "try_q2_pattern q2_ordered =
      Inr (Some (q2_sql (PStr ''JP'') (PStr ''2024-10-20'') (PStr ''2024-10-23'')))"
    by (simp add: try_q2_pattern_def q2_ordered_def descriptor_defs py_unpack2_def)
  moreover have
    "\<not> occurs_in ''ORDER BY'' (q2_sql (PStr ''JP'') (PStr ''2024-10-20'') (PStr ''2024-10-23''))"
    by (simp add: q2_sql_def q2_head_def sql_text_defs)
  ultimately show ?thesis
    using try_q1_q1_descriptor try_q2_q2_descriptor by simp
qed

theorem q1_q2_ignore_order_by_witness:
  "\<exists>sql. try_q1_pattern q1_ordered = Inr (Some sql) \<and> \<not> occurs_in ''ORDER BY'' sql"
  using q1_q2_ignore_order_by by blast

subsection \<open>The grain\<close>

lemma q1_grain:
  "try_q1_pattern q = Inr (Some s) \<Longrightarrow>
     py_get q ''group_by'' (PList []) = Inr (PList [PStr ''day''])"
  by (auto simp: try_q1_pattern_def bind_res_Inr_iff split: if_splits)

lemma q2_grain:
  "try_q2_pattern q = Inr (Some s) \<Longrightarrow>
     py_get q ''group_by'' (PList []) = Inr (PList [PStr ''publisher_id''])"
  by (auto simp: try_q2_pattern_def bind_res_Inr_iff split: if_splits)

lemma q3_grain:
  "try_q3_pattern q = Inr (Some s) \<Longrightarrow>
     py_get q ''group_by'' (PList []) = Inr (PList [PStr ''country''])"
  by (auto simp: try_q3_pattern_def bind_res_Inr_iff split: if_splits)

lemma q5_grain:
  "try_q5_pattern q = Inr (Some s) \<Longrightarrow>
     py_get q ''group_by'' (PList []) = Inr (PList [PStr ''minute''])"
  by (auto simp: try_q5_pattern_def bind_res_Inr_iff split: if_splits)

lemma q4_grain:
  "try_q4_pattern q = Inr (Some s) \<Longrightarrow>
     bind_res (py_get q ''group_by'' (PList [])) py_set
       = Inr {PStr ''advertiser_id'', PStr ''type''}"
  by (auto simp: try_q4_pattern_def bind_res_Inr_iff split: if_splits)

lemma q4_depends_on_grain_set:
  assumes "py_get q ''select'' (PList []) = py_get q' ''select'' (PList [])"
    and "py_get q ''where'' (PList []) = py_get q' ''where'' (PList [])"
    and "py_get q ''order_by'' (PList []) = py_get q' ''order_by'' (PList [])"
    and "bind_res (py_get q ''group_by'' (PList [])) py_set
         = bind_res (py_get q' ''group_by'' (PList [])) py_set"
  shows "try_q4_pattern q = try_q4_pattern q'"
proof (cases "\<exists>kvs. q = PDict kvs")
  case False
  then have a: "py_get q ''select'' (PList []) = Inl AttributeError"
    by (cases q) auto
  with assms(1) have b: "py_get q' ''select'' (PList []) = Inl AttributeError" by simp
  from a b show ?thesis by (simp add: try_q4_pattern_def)
next
  case True
  then obtain kvs where q: "q = PDict kvs" by blast
  with assms(1) obtain kvs' where q': "q' = PDict kvs'" by (cases q') auto
  from assms show ?thesis
    unfolding try_q4_pattern_def q q' by simp
qed

text \<open>
  C5, as the claim states it, fails for the four rules with a one-column grain: they
  compare \<^verbatim>\<open>group_by\<close> with a list (\<^verbatim>\<open>group_by != ['day']\<close>), not with a set. The
  descriptor \<open>q1_day_twice\<close> groups by \<^verbatim>\<open>['day', 'day']\<close>, whose set is the grain of Q1, and
  is not matched, while \<open>q1_descriptor\<close>, which differs in nothing else, is.
\<close>

theorem q1_rejects_repeated_grain_column:
  "py_set (PList [PStr ''day'', PStr ''day'']) = py_set (PList [PStr ''day''])
   \<and> try_q1_pattern q1_descriptor = Inr (Some q1_sql)
   \<and> try_q1_pattern q1_day_twice = Inr None"
proof -
  have "try_q1_pattern q1_day_twice = Inr None"
    by (simp add: try_q1_pattern_def q1_day_twice_def descriptor_defs)
  moreover have "py_set (PList [PStr ''day'', PStr ''day'']) = py_set (PList [PStr ''day''])"
    by (simp add: py_set_def)
  ultimately show ?thesis
    using try_q1_q1_descriptor by simp
qed

text \<open>
  C5, amended. Q4 reads \<^verbatim>\<open>group_by\<close> only through \<^verbatim>\<open>set(group_by)\<close>: two descriptors with
  the same \<^verbatim>\<open>select\<close>, \<^verbatim>\<open>where\<close> and \<^verbatim>\<open>order_by\<close> whose \<^verbatim>\<open>group_by\<close> have the same set get
  the same result, whatever the order and the repetitions, and Q4 matches only when that
  set is exactly \<^verbatim>\<open>{advertiser_id, type}\<close>. Q1, Q2, Q3 and Q5 match only when \<^verbatim>\<open>group_by\<close>
  is exactly the one-element list of their grain column. So no rule matches a strict
  superset or a strict subset of its grain.
\<close>

theorem grain_matching:
  "(py_get qa ''select'' (PList []) = py_get qb ''select'' (PList [])
      \<and> py_get qa ''where'' (PList []) = py_get qb ''where'' (PList [])
      \<and> py_get qa ''order_by'' (PList []) = py_get qb ''order_by'' (PList [])
      \<and> bind_res (py_get qa ''group_by'' (PList [])) py_set
          = bind_res (py_get qb ''group_by'' (PList [])) py_set
    \<longrightarrow> try_q4_pattern qa = try_q4_pattern qb)
   \<and> (try_q4_pattern q4 = Inr (Some s4)
        \<longrightarrow> bind_res (py_get q4 ''group_by'' (PList [])) py_set
              = Inr {PStr ''advertiser_id'', PStr ''type''})
   \<and> (try_q1_pattern q1 = Inr (Some s1)
        \<longrightarrow> py_get q1 ''group_by'' (PList []) = Inr (PList [PStr ''day'']))
   \<and> (try_q2_pattern q2 = Inr (Some s2)
        \<longrightarrow> py_get q2 ''group_by'' (PList []) = Inr (PList [PStr ''publisher_id'']))
   \<and> (try_q3_pattern q3 = Inr (Some s3)
        \<longrightarrow> py_get q3 ''group_by'' (PList []) = Inr (PList [PStr ''country'']))
   \<and> (try_q5_pattern q5 = Inr (Some s5)
        \<longrightarrow> py_get q5 ''group_by'' (PList []) = Inr (PList [PStr ''minute'']))"
  using q4_depends_on_grain_set [of qa qb] q4_grain [of q4 s4] q1_grain [of q1 s1]
    q2_grain [of q2 s2] q3_grain [of q3 s3] q5_grain [of q5 s5]
  by blast

lemma q4_reordered_fields:
  "py_get q4_descriptor ''select'' (PList []) = py_get q4_reordered ''select'' (PList [])"
  "py_get q4_descriptor ''where'' (PList []) = py_get q4_reordered ''where'' (PList [])"
  "py_get q4_descriptor ''order_by'' (PList []) = py_get q4_reordered ''order_by'' (PList [])"
  "bind_res (py_get q4_descriptor ''group_by'' (PList [])) py_set
     = bind_res (py_get q4_reordered ''group_by'' (PList [])) py_set"
  by (auto simp: q4_descriptor_def q4_reordered_def descriptor_defs py_set_def)

theorem grain_matching_witness:
  \<open>try_q4_pattern q4_reordered = Inr (Some (q4_sql ''ORDER BY "count_star()" DESC''))
   \<and> py_get q4_reordered ''group_by'' (PList [])
       = Inr (PList [PStr ''type'', PStr ''advertiser_id'', PStr ''type''])
   \<and> bind_res (py_get q4_descriptor ''group_by'' (PList [])) py_set
       = Inr {PStr ''advertiser_id'', PStr ''type''}
   \<and> py_get q1_descriptor ''group_by'' (PList []) = Inr (PList [PStr ''day''])
   \<and> py_get q2_descriptor ''group_by'' (PList []) = Inr (PList [PStr ''publisher_id''])
   \<and> py_get q3_descriptor ''group_by'' (PList []) = Inr (PList [PStr ''country''])
   \<and> py_get q5_descriptor ''group_by'' (PList []) = Inr (PList [PStr ''minute''])
   \<and> try_q4_pattern q4_with_country = Inr None\<close>
proof -
  note g = grain_matching [of q4_descriptor q4_reordered q4_descriptor
      \<open>q4_sql ''ORDER BY "count_star()" DESC''\<close> q1_descriptor q1_sql q2_descriptor
      "q2_sql (PStr ''JP'') (PStr ''2024-10-20'') (PStr ''2024-10-23'')" q3_descriptor
      \<open>q3_sql ''ORDER BY "avg(total_price)" DESC''\<close> q5_descriptor
      "q5_sql (PStr ''2024-06-01'') ''ORDER BY minute ASC''"]
  have e0: "try_q4_pattern q4_descriptor = try_q4_pattern q4_reordered"
    by (rule g [THEN conjunct1, THEN mp]) (intro conjI q4_reordered_fields)
  from e0 [symmetric] try_q4_q4_descriptor
  have e1: \<open>try_q4_pattern q4_reordered = Inr (Some (q4_sql ''ORDER BY "count_star()" DESC''))\<close>
    by (rule trans)
  have e2: "bind_res (py_get q4_descriptor ''group_by'' (PList [])) py_set
       = Inr {PStr ''advertiser_id'', PStr ''type''}"
    by (rule g [THEN conjunct2, THEN conjunct1, THEN mp]) (rule try_q4_q4_descriptor)
  have e3: "py_get q1_descriptor ''group_by'' (PList []) = Inr (PList [PStr ''day''])"
    by (rule g [THEN conjunct2, THEN conjunct2, THEN conjunct1, THEN mp])
      (rule try_q1_q1_descriptor)
  have e4: "py_get q2_descriptor ''group_by'' (PList []) = Inr (PList [PStr ''publisher_id''])"
    by (rule g [THEN conjunct2, THEN conjunct2, THEN conjunct2, THEN conjunct1, THEN mp])
      (rule try_q2_q2_descriptor)
  have e5: "py_get q3_descriptor ''group_by'' (PList []) = Inr (PList [PStr ''country''])"
    by (rule g [THEN conjunct2, THEN conjunct2, THEN conjunct2, THEN conjunct2, THEN conjunct1,
          THEN mp])
      (rule try_q3_q3_descriptor)
  have e6: "py_get q5_descriptor ''group_by'' (PList []) = Inr (PList [PStr ''minute''])"
    by (rule g [THEN conjunct2, THEN conjunct2, THEN conjunct2, THEN conjunct2, THEN conjunct2,
          THEN mp])
      (rule try_q5_q5_descriptor)
  have e7: "py_get q4_reordered ''group_by'' (PList [])
       = Inr (PList [PStr ''type'', PStr ''advertiser_id'', PStr ''type''])"
    by (simp add: q4_reordered_def descriptor_defs)
  have e8: "try_q4_pattern q4_with_country = Inr None"
    by code_simp
  show ?thesis
    by (intro conjI; fact)
qed

subsection \<open>Descriptors of another shape\<close>

text \<open>
  C8, as the claim states it, fails: the rules call \<^verbatim>\<open>.get\<close> on every filter and on
  every ordering, and a value without that method raises. The descriptor
  \<open>q1_string_filter\<close> has Q1's shape, but its one filter is a string; \<open>try_q1_pattern\<close>,
  and with it \<open>route_query\<close>, raises AttributeError instead of returning None.
\<close>

theorem string_filter_raises:
  "try_q1_pattern q1_string_filter = Inl AttributeError
   \<and> route_query q1_string_filter = Inl AttributeError"
proof -
  have "try_q1_pattern q1_string_filter = Inl AttributeError"
    by (simp add: try_q1_pattern_def q1_string_filter_def descriptor_defs)
  then show ?thesis
    by (simp add: route_query_def py_or_def)
qed

lemma wf_filter_dict: "wf_filter w \<Longrightarrow> \<exists>kvs. w = PDict kvs"
  by (cases w) auto

lemma wf_ordering_dict: "wf_ordering w \<Longrightarrow> \<exists>kvs. w = PDict kvs"
  by (cases w) auto

lemma list_field_list:
  assumes "list_field P v"
  shows "\<exists>xs. (case v of Some x \<Rightarrow> x | None \<Rightarrow> PList []) = PList xs \<and> list_all P xs"
proof (cases v)
  case None
  then show ?thesis by simp
next
  case (Some x)
  with assms show ?thesis by (cases x) auto
qed

lemma py_any_filter_ok:
  "list_all wf_filter ws \<Longrightarrow> \<exists>b. py_any (is_eq_filter c v) ws = Inr b"
proof (induction ws)
  case Nil
  then show ?case by auto
next
  case (Cons w ws)
  then have "wf_filter w" by simp
  then obtain kvs where "w = PDict kvs" using wf_filter_dict by blast
  with Cons show ?case by auto
qed

lemma wf_between_val:
  assumes "wf_filter (PDict kvs)" "map_of kvs ''op'' = Some (PStr ''between'')"
  shows "\<exists>a b. map_of kvs ''val'' = Some (PList [a, b])"
  using assms by (auto split: option.splits pyval.splits list.splits)

lemma q2_filters_ok:
  "list_all wf_filter ws \<Longrightarrow> unset_or_pair d0 \<Longrightarrow>
     \<exists>t c d. q2_filters ws (t0, c0, d0) = Inr (t, c, d) \<and> unset_or_pair d"
proof (induction ws arbitrary: t0 c0 d0)
  case Nil
  then show ?case by simp
next
  case (Cons w ws)
  then have "wf_filter w" by simp
  then obtain kvs where w: "w = PDict kvs" using wf_filter_dict by blast
  from Cons.prems have ws: "list_all wf_filter ws" and wf: "wf_filter (PDict kvs)"
    by (simp_all add: w)
  show ?case
  proof (cases "map_of kvs ''col'' = Some (PStr ''day'')
                \<and> map_of kvs ''op'' = Some (PStr ''between'')")
    case True
    with wf_between_val [OF wf] obtain a b where v: "map_of kvs ''val'' = Some (PList [a, b])"
      by auto
    have "unset_or_pair (PList [a, b])" by (simp add: unset_or_pair_def)
    from Cons.IH [OF ws this] True v show ?thesis
      by (simp add: w)
  next
    case False
    with Cons.IH [OF ws Cons.prems(2)] show ?thesis
      by (auto simp: w split: option.splits)
  qed
qed

lemma q5_filters_ok:
  "list_all wf_filter ws \<Longrightarrow> \<exists>t d. q5_filters ws (t0, d0) = Inr (t, d)"
proof (induction ws arbitrary: t0 d0)
  case Nil
  then show ?case by simp
next
  case (Cons w ws)
  then have "wf_filter w" by simp
  then obtain kvs where w: "w = PDict kvs" using wf_filter_dict by blast
  from Cons show ?case by (simp add: w)
qed

lemma order_part_ok: "wf_ordering ob \<Longrightarrow> \<exists>p. order_part alias ob = Inr p"
proof -
  assume a: "wf_ordering ob"
  then obtain kvs where w: "ob = PDict kvs" using wf_ordering_dict by auto
  with a obtain d where
    "(case map_of kvs ''dir'' of None \<Rightarrow> PStr ''asc'' | Some v \<Rightarrow> v) = PStr d"
    by (cases "map_of kvs ''dir''"; cases "the (map_of kvs ''dir'')") auto
  then show ?thesis
    by (auto simp: order_part_def w split: option.splits)
qed

lemma order_parts_ok: "list_all wf_ordering obs \<Longrightarrow> \<exists>ps. order_parts alias obs = Inr ps"
proof (induction obs)
  case Nil
  then show ?case by simp
next
  case (Cons ob obs)
  then obtain p ps where "order_part alias ob = Inr p" "order_parts alias obs = Inr ps"
    using order_part_ok by fastforce
  then show ?case by simp
qed

lemma order_clause_ok:
  "list_all wf_ordering obs \<Longrightarrow> \<exists>c. order_clause alias (PList obs) = Inr c"
  using order_parts_ok [of obs "alias"] by (auto simp: order_clause_def)

lemma is_str_hashable: "list_all is_str gs \<Longrightarrow> list_all py_hashable gs"
proof (induction gs)
  case Nil
  then show ?case by simp
next
  case (Cons g gs)
  then show ?case by (cases g) auto
qed

lemma try_q1_total: "well_formed q \<Longrightarrow> \<exists>r. try_q1_pattern q = Inr r"
proof -
  assume wf: "well_formed q"
  then obtain kvs where q: "q = PDict kvs" by (cases q) auto
  from wf q obtain xs where
    s: "(case map_of kvs ''select'' of Some x \<Rightarrow> x | None \<Rightarrow> PList []) = PList xs"
    using list_field_list [of "\<lambda>s. True" "map_of kvs ''select''"] by auto
  from wf q obtain ws where
    w: "(case map_of kvs ''where'' of Some x \<Rightarrow> x | None \<Rightarrow> PList []) = PList ws"
    and wsf: "list_all wf_filter ws"
    using list_field_list [of wf_filter "map_of kvs ''where''"] by auto
  from py_any_filter_ok [OF wsf] obtain b where
    "py_any (is_eq_filter ''type'' ''impression'') ws = Inr b"
    by blast
  then show ?thesis
    by (simp add: try_q1_pattern_def q s w)
qed

lemma try_q2_total: "well_formed q \<Longrightarrow> \<exists>r. try_q2_pattern q = Inr r"
proof -
  assume wf: "well_formed q"
  then obtain kvs where q: "q = PDict kvs" by (cases q) auto
  from wf q obtain xs where
    s: "(case map_of kvs ''select'' of Some x \<Rightarrow> x | None \<Rightarrow> PList []) = PList xs"
    using list_field_list [of "\<lambda>s. True" "map_of kvs ''select''"] by auto
  from wf q obtain ws where
    w: "(case map_of kvs ''where'' of Some x \<Rightarrow> x | None \<Rightarrow> PList []) = PList ws"
    and wsf: "list_all wf_filter ws"
    using list_field_list [of wf_filter "map_of kvs ''where''"] by auto
  have "unset_or_pair PNone" by (simp add: unset_or_pair_def)
  from q2_filters_ok [OF wsf this] obtain t c d where
    f: "q2_filters ws (PNone, PNone, PNone) = Inr (t, c, d)" and d: "unset_or_pair d"
    by blast
  from d have "\<not> py_truthy d \<or> (\<exists>a b. py_unpack2 d = Inr (a, b))"
    by (auto simp: unset_or_pair_def py_unpack2_def)
  with f show ?thesis
    by (auto simp: try_q2_pattern_def q s w)
qed

lemma try_q3_total: "well_formed q \<Longrightarrow> \<exists>r. try_q3_pattern q = Inr r"
proof -
  assume wf: "well_formed q"
  then obtain kvs where q: "q = PDict kvs" by (cases q) auto
  from wf q obtain xs where
    s: "(case map_of kvs ''select'' of Some x \<Rightarrow> x | None \<Rightarrow> PList []) = PList xs"
    using list_field_list [of "\<lambda>s. True" "map_of kvs ''select''"] by auto
  from wf q obtain ws where
    w: "(case map_of kvs ''where'' of Some x \<Rightarrow> x | None \<Rightarrow> PList []) = PList ws"
    and wsf: "list_all wf_filter ws"
    using list_field_list [of wf_filter "map_of kvs ''where''"] by auto
  from wf q obtain obs where
    ob: "(case map_of kvs ''order_by'' of Some x \<Rightarrow> x | None \<Rightarrow> PList []) = PList obs"
    and obf: "list_all wf_ordering obs"
    using list_field_list [of wf_ordering "map_of kvs ''order_by''"] by auto
  from py_any_filter_ok [OF wsf] obtain b where
    "py_any (is_eq_filter ''type'' ''purchase'') ws = Inr b"
    by blast
  moreover from order_clause_ok [OF obf] obtain c where
    "order_clause q3_alias (PList obs) = Inr c"
    by blast
  ultimately show ?thesis
    by (simp add: try_q3_pattern_def q s w ob)
qed

lemma try_q4_total: "well_formed q \<Longrightarrow> \<exists>r. try_q4_pattern q = Inr r"
proof -
  assume wf: "well_formed q"
  then obtain kvs where q: "q = PDict kvs" by (cases q) auto
  from wf q obtain xs where
    s: "(case map_of kvs ''select'' of Some x \<Rightarrow> x | None \<Rightarrow> PList []) = PList xs"
    using list_field_list [of "\<lambda>s. True" "map_of kvs ''select''"] by auto
  from wf q obtain gs where
    g: "(case map_of kvs ''group_by'' of Some x \<Rightarrow> x | None \<Rightarrow> PList []) = PList gs"
    and gsf: "list_all is_str gs"
    using list_field_list [of is_str "map_of kvs ''group_by''"] by auto
  from wf q obtain obs where
    ob: "(case map_of kvs ''order_by'' of Some x \<Rightarrow> x | None \<Rightarrow> PList []) = PList obs"
    and obf: "list_all wf_ordering obs"
    using list_field_list [of wf_ordering "map_of kvs ''order_by''"] by auto
  from order_clause_ok [OF obf] obtain c where "order_clause q4_alias (PList obs) = Inr c"
    by blast
  with is_str_hashable [OF gsf] show ?thesis
    by (simp add: try_q4_pattern_def q s g ob py_set_def)
qed

lemma try_q5_total: "well_formed q \<Longrightarrow> \<exists>r. try_q5_pattern q = Inr r"
proof -
  assume wf: "well_formed q"
  then obtain kvs where q: "q = PDict kvs" by (cases q) auto
  from wf q obtain xs where
    s: "(case map_of kvs ''select'' of Some x \<Rightarrow> x | None \<Rightarrow> PList []) = PList xs"
    using list_field_list [of "\<lambda>s. True" "map_of kvs ''select''"] by auto
  from wf q obtain ws where
    w: "(case map_of kvs ''where'' of Some x \<Rightarrow> x | None \<Rightarrow> PList []) = PList ws"
    and wsf: "list_all wf_filter ws"
    using list_field_list [of wf_filter "map_of kvs ''where''"] by auto
  from wf q obtain obs where
    ob: "(case map_of kvs ''order_by'' of Some x \<Rightarrow> x | None \<Rightarrow> PList []) = PList obs"
    and obf: "list_all wf_ordering obs"
    using list_field_list [of wf_ordering "map_of kvs ''order_by''"] by auto
  from q5_filters_ok [OF wsf] obtain t d where "q5_filters ws (PNone, PNone) = Inr (t, d)"
    by blast
  moreover from order_clause_ok [OF obf] obtain c where "order_clause None (PList obs) = Inr c"
    by blast
  ultimately show ?thesis
    by (simp add: try_q5_pattern_def q s w ob)
qed

text \<open>
  C8, amended. On a descriptor of the spec's data model (a dictionary whose \<^verbatim>\<open>select\<close>,
  \<^verbatim>\<open>where\<close>, \<^verbatim>\<open>group_by\<close> and \<^verbatim>\<open>order_by\<close>, when present, are lists; filters and orderings
  that are dictionaries; a two-element list in every \<^verbatim>\<open>between\<close> filter; strings as
  grouping columns and as \<^verbatim>\<open>dir\<close>) every rule and \<open>route_query\<close> return a value, a
  rewritten query or None, and raise nothing. Missing fields, missing keys of a filter or
  an ordering, and select items of any shape are all within that model.
\<close>

theorem well_formed_never_raises:
  assumes "well_formed q"
  shows "(\<exists>r. try_q1_pattern q = Inr r) \<and> (\<exists>r. try_q2_pattern q = Inr r)
       \<and> (\<exists>r. try_q3_pattern q = Inr r) \<and> (\<exists>r. try_q4_pattern q = Inr r)
       \<and> (\<exists>r. try_q5_pattern q = Inr r) \<and> (\<exists>r. route_query q = Inr r)"
proof -
  from assms obtain r1 r2 r3 r4 r5 where
    r: "try_q1_pattern q = Inr r1" "try_q2_pattern q = Inr r2" "try_q3_pattern q = Inr r3"
       "try_q4_pattern q = Inr r4" "try_q5_pattern q = Inr r5"
    using try_q1_total try_q2_total try_q3_total try_q4_total try_q5_total by metis
  then have "\<exists>r. route_query q = Inr r"
    by (simp add: route_query_def py_or_def)
  with r show ?thesis by simp
qed

text \<open>A descriptor with no field at all, and one whose only filter has no key at all,
  are well formed.\<close>

theorem well_formed_never_raises_witness:
  "well_formed (PDict []) \<and> route_query (PDict []) = Inr None
   \<and> well_formed (PDict [(''group_by'', PList [PStr ''day'']),
                          (''select'', PList [PStr ''day'', agg ''SUM'' ''bid_price'']),
                          (''where'', PList [PDict []])])
   \<and> (\<exists>r. route_query (PDict [(''group_by'', PList [PStr ''day'']),
                          (''select'', PList [PStr ''day'', agg ''SUM'' ''bid_price'']),
                          (''where'', PList [PDict []])]) = Inr r)"
proof -
  have w1: "well_formed (PDict [])"
    by simp
  have w2: "well_formed (PDict [(''group_by'', PList [PStr ''day'']),
                          (''select'', PList [PStr ''day'', agg ''SUM'' ''bid_price'']),
                          (''where'', PList [PDict []])])"
    by simp
  have e1: "route_query (PDict []) = Inr None"
    by (simp add: route_query_def py_or_def try_q1_pattern_def try_q2_pattern_def
        try_q3_pattern_def try_q4_pattern_def try_q5_pattern_def py_set_def)
  from well_formed_never_raises [OF w2]
  have e2: "\<exists>r. route_query (PDict [(''group_by'', PList [PStr ''day'']),
                          (''select'', PList [PStr ''day'', agg ''SUM'' ''bid_price'']),
                          (''where'', PList [PDict []])]) = Inr r"
    by blast
  show ?thesis
    by (intro conjI; fact)
qed

subsection \<open>The source a rewritten query reads\<close>

lemma route_query_source:
  assumes "route_query q = Inr (Some sql)"
  shows "try_q1_pattern q = Inr (Some sql) \<or> try_q2_pattern q = Inr (Some sql)
       \<or> try_q3_pattern q = Inr (Some sql) \<or> try_q4_pattern q = Inr (Some sql)
       \<or> try_q5_pattern q = Inr (Some sql)"
  using assms unfolding route_query_def py_or_def
  by (auto simp: bind_res_Inr_iff split: if_splits)

text \<open>
  C10, as the claim states it, fails: the rules copy the columns of \<^verbatim>\<open>order_by\<close> and the
  values of the filters into the SQL text as they are. \<open>q4_order_by_subquery\<close> has Q4's
  shape and orders by a scalar subquery over the base dataset; \<open>route_query\<close> returns a
  query whose ORDER BY clause reads \<^verbatim>\<open>data_store/events/*/*/*.parquet\<close>.
\<close>

theorem order_by_can_read_events:
  "\<exists>sql. route_query q4_order_by_subquery = Inr (Some sql) \<and> occurs_in events_source sql"
proof -
  let ?clause = "''ORDER BY (SELECT COUNT(*) FROM '' @ events_source
                 @ '', hive_partitioning = 1)) DESC''"
  have "try_q1_pattern q4_order_by_subquery = Inr None"
    by (simp add: try_q1_pattern_def q4_order_by_subquery_def descriptor_defs)
  moreover have "try_q2_pattern q4_order_by_subquery = Inr None"
    by (simp add: try_q2_pattern_def q4_order_by_subquery_def descriptor_defs)
  moreover have "try_q3_pattern q4_order_by_subquery = Inr None"
    by (simp add: try_q3_pattern_def q4_order_by_subquery_def descriptor_defs)
  moreover have "try_q4_pattern q4_order_by_subquery = Inr (Some (q4_sql ?clause))"
    by (simp add: try_q4_pattern_def q4_order_by_subquery_def descriptor_defs py_set_def
        order_clause_def order_part_def q4_alias_def upper_char_def events_source_def
        squote_char_def DATA_STORE_def)
  ultimately have "route_query q4_order_by_subquery = Inr (Some (q4_sql ?clause))"
    by (simp add: route_query_def py_or_def q4_sql_nonempty)
  moreover have "occurs_in events_source (q4_sql ?clause)"
    by (simp add: q4_sql_def q4_head_def sql_text_defs events_source_def)
  ultimately show ?thesis
    by blast
qed

lemma heads_without_source:
  "\<not> occurs_in ''read_parquet'' q1_head" "\<not> occurs_in ''read_parquet'' q2_head"
  "\<not> occurs_in ''read_parquet'' q3_head" "\<not> occurs_in ''read_parquet'' q4_head"
  "\<not> occurs_in ''read_parquet'' q5_head"
  by (simp_all add: q1_head_def q2_head_def q3_head_def q4_head_def q5_head_def)

text \<open>
  C10, amended. A query that \<open>route_query\<close> returns is the fixed SELECT list of the rule
  that matched, which names no source, then \<^verbatim>\<open>FROM read_parquet('data_store/F')\<close> with
  \<open>F\<close> one of the three rollup files (the revenue rollup for Q1, Q2 and Q5, the purchase
  summary for Q3, the counts for Q4), then the rest of the rule's template. The FROM
  clause of the query is never the base dataset; what the text after it reads depends on
  the filter values and ordering columns copied into it.
\<close>

theorem rewritten_query_from_clause:
  assumes "route_query q = Inr (Some sql)"
  shows "\<exists>head file rest. sql = head @ read_parquet file @ rest
           \<and> \<not> occurs_in ''read_parquet'' head
           \<and> (head, file) \<in> {(q1_head, agg_revenue), (q2_head, agg_revenue),
                              (q3_head, agg_purchase), (q4_head, agg_counts),
                              (q5_head, agg_revenue)}"
proof -
  from route_query_source [OF assms] consider
      (1) "try_q1_pattern q = Inr (Some sql)" | (2) "try_q2_pattern q = Inr (Some sql)"
    | (3) "try_q3_pattern q = Inr (Some sql)" | (4) "try_q4_pattern q = Inr (Some sql)"
    | (5) "try_q5_pattern q = Inr (Some sql)" by blast
  then show ?thesis
  proof cases
    case 1
    then have "sql = q1_head @ read_parquet agg_revenue
        @ drop (length (q1_head @ read_parquet agg_revenue)) q1_sql"
      by (auto dest!: try_q1_shape simp: q1_sql_def)
    with heads_without_source(1) show ?thesis by blast
  next
    case 2
    then obtain c a b where "sql = q2_head @ read_parquet agg_revenue
        @ drop (length (q2_head @ read_parquet agg_revenue)) (q2_sql c a b)"
      by (auto dest!: try_q2_shape simp: q2_sql_def)
    with heads_without_source(2) show ?thesis by blast
  next
    case 3
    then obtain c where "sql = q3_head @ read_parquet agg_purchase
        @ drop (length (q3_head @ read_parquet agg_purchase)) (q3_sql c)"
      by (auto dest!: try_q3_shape simp: q3_sql_def)
    with heads_without_source(3) show ?thesis by blast
  next
    case 4
    then obtain c where "sql = q4_head @ read_parquet agg_counts
        @ drop (length (q4_head @ read_parquet agg_counts)) (q4_sql c)"
      by (auto dest!: try_q4_shape simp: q4_sql_def)
    with heads_without_source(4) show ?thesis by blast
  next
    case 5
    then obtain d c where "sql = q5_head @ read_parquet agg_revenue
        @ drop (length (q5_head @ read_parquet agg_revenue)) (q5_sql d c)"
      by (auto dest!: try_q5_shape simp: q5_sql_def)
    with heads_without_source(5) show ?thesis by blast
  qed
qed

lemma route_query_q1_descriptor: "route_query q1_descriptor = Inr (Some q1_sql)"
  using try_q1_q1_descriptor by (simp add: route_query_def py_or_def q1_sql_nonempty)

theorem rewritten_query_from_clause_witness:
  "route_query q1_descriptor = Inr (Some q1_sql)
   \<and> (\<exists>head file rest. q1_sql = head @ read_parquet file @ rest
         \<and> \<not> occurs_in ''read_parquet'' head
         \<and> (head, file) \<in> {(q1_head, agg_revenue), (q2_head, agg_revenue),
                            (q3_head, agg_purchase), (q4_head, agg_counts),
                            (q5_head, agg_revenue)})
   \<and> \<not> occurs_in events_source q1_sql"
proof -
  have "\<not> occurs_in events_source q1_sql"
    by (simp add: q1_sql_def q1_head_def sql_text_defs events_source_def)
  with rewritten_query_from_clause [OF route_query_q1_descriptor] route_query_q1_descriptor
  show ?thesis by blast
qed

subsection \<open>The average of Q3\<close>

lemma is_prefix_append: "is_prefix xs (xs @ ys)"
  by (induction xs) simp_all

lemma avg_from_sum_and_count: "sql_div (sql_sum vs) (sql_count vs) = sql_avg vs"
proof (cases "present vs")
  case Nil
  then show ?thesis
    by (simp add: sql_div_def sql_sum_def sql_count_def sql_avg_def)
next
  case (Cons x xs)
  then show ?thesis
    by (simp add: sql_div_def sql_sum_def sql_count_def sql_avg_def add.commute)
qed

lemma purchase_rollup_rows:
  "r \<in> set (agg_purchase_summary es) \<Longrightarrow>
     sql_div (pr_sum_of_price r) (pr_count_of_purchases r) = direct_avg es (pr_country r)"
  by (auto simp: agg_purchase_summary_def groups_def direct_avg_def avg_from_sum_and_count)

text \<open>
  C7. The SQL of Q3 starts with the select list that divides the stored sum by the stored
  count (\<open>q3_head\<close>), and the rollup it reads stores \<^verbatim>\<open>SUM(total_price)\<close> and
  \<^verbatim>\<open>COUNT(total_price)\<close> per country, no average. For every events table, the row that
  the rewritten query returns for a country of the rollup holds \<^verbatim>\<open>AVG(total_price)\<close> taken
  directly over the purchase events of that country (\<open>direct_avg\<close>); a purchase whose
  price is NULL counts in neither. For the rollup row \<^verbatim>\<open>JP, 300.0, 3\<close> the query returns
  \<open>100\<close>. DOUBLE values are real numbers here, so rounding is not part of the statement.
\<close>

theorem q3_average_from_sum_and_count:
  \<open>(try_q3_pattern q = Inr (Some sql) \<longrightarrow> is_prefix (q3_head @ read_parquet agg_purchase) sql)
   \<and> occurs_in ''sum_of_price / count_of_purchases AS "avg(total_price)"'' q3_head
   \<and> exec_q3 (agg_purchase_summary es) =
       map (\<lambda>r. [str_cell (pr_country r), num_cell (direct_avg es (pr_country r))])
         (agg_purchase_summary es)
   \<and> exec_q3 [\<lparr>pr_country = Some ''JP'', pr_sum_of_price = Some 300,
                 pr_count_of_purchases = 3\<rparr>] = [[VStr ''JP'', VNum 100]]\<close>
proof -
  have "try_q3_pattern q = Inr (Some sql) \<longrightarrow> is_prefix (q3_head @ read_parquet agg_purchase) sql"
  proof
    assume "try_q3_pattern q = Inr (Some sql)"
    then obtain c where "sql = q3_sql c" using try_q3_shape by blast
    then have "sql = (q3_head @ read_parquet agg_purchase)
        @ drop (length (q3_head @ read_parquet agg_purchase)) sql"
      by (simp add: q3_sql_def)
    then show "is_prefix (q3_head @ read_parquet agg_purchase) sql"
      using is_prefix_append by metis
  qed
  moreover have \<open>occurs_in ''sum_of_price / count_of_purchases AS "avg(total_price)"'' q3_head\<close>
    by (simp add: q3_head_def)
  moreover have "exec_q3 (agg_purchase_summary es) =
       map (\<lambda>r. [str_cell (pr_country r), num_cell (direct_avg es (pr_country r))])
         (agg_purchase_summary es)"
    by (simp add: exec_q3_def purchase_rollup_rows)
  moreover have "exec_q3 [\<lparr>pr_country = Some ''JP'', pr_sum_of_price = Some 300,
                 pr_count_of_purchases = 3\<rparr>] = [[VStr ''JP'', VNum 100]]"
    by (simp add: exec_q3_def sql_div_def)
  ultimately show ?thesis
    by blast
qed

lemmas event_defs = purchase_def impression_def blank_event_def

lemma jp_purchases_rollup:
  "agg_purchase_summary jp_purchases =
     [\<lparr>pr_country = Some ''JP'', pr_sum_of_price = Some 300, pr_count_of_purchases = 3\<rparr>]"
  by (simp add: agg_purchase_summary_def jp_purchases_def event_defs groups_def sql_sum_def
      sql_count_def)

lemma jp_purchases_direct_avg: "direct_avg jp_purchases (Some ''JP'') = Some 100"
  by (simp add: direct_avg_def jp_purchases_def event_defs sql_avg_def)

theorem q3_average_from_sum_and_count_witness:
  \<open>try_q3_pattern q3_descriptor = Inr (Some (q3_sql ''ORDER BY "avg(total_price)" DESC''))
   \<and> is_prefix (q3_head @ read_parquet agg_purchase)
       (q3_sql ''ORDER BY "avg(total_price)" DESC'')
   \<and> agg_purchase_summary jp_purchases =
       [\<lparr>pr_country = Some ''JP'', pr_sum_of_price = Some 300, pr_count_of_purchases = 3\<rparr>]
   \<and> exec_q3 (agg_purchase_summary jp_purchases) = [[VStr ''JP'', VNum 100]]
   \<and> direct_avg jp_purchases (Some ''JP'') = Some 100\<close>
proof -
  note t = q3_average_from_sum_and_count [of q3_descriptor
      \<open>q3_sql ''ORDER BY "avg(total_price)" DESC''\<close> jp_purchases]
  have e1: \<open>is_prefix (q3_head @ read_parquet agg_purchase)
       (q3_sql ''ORDER BY "avg(total_price)" DESC'')\<close>
    by (rule t [THEN conjunct1, THEN mp]) (rule try_q3_q3_descriptor)
  from t have "exec_q3 (agg_purchase_summary jp_purchases) =
       map (\<lambda>r. [str_cell (pr_country r), num_cell (direct_avg jp_purchases (pr_country r))])
         (agg_purchase_summary jp_purchases)"
    by (rule conjunct2 [THEN conjunct2, THEN conjunct1])
  then have e2: "exec_q3 (agg_purchase_summary jp_purchases) = [[VStr ''JP'', VNum 100]]"
    by (simp add: jp_purchases_rollup jp_purchases_direct_avg)
  show ?thesis
    by (intro conjI; fact try_q3_q3_descriptor e1 jp_purchases_rollup e2 jp_purchases_direct_avg)
qed

subsection \<open>Empty batches\<close>

lemma read_csv_loadable:
  "loadable insert_rows content \<Longrightarrow>
     \<exists>df. read_csv content = Inr df
       \<and> frame_empty df = empty_batch content
       \<and> (\<not> frame_empty df \<longrightarrow> (\<exists>new_rows. insert_rows df = Inr new_rows))"
  by (auto simp: loadable_def read_csv_def frame_empty_def empty_batch_def split: sum.splits)

lemma load_batches_result:
  assumes "\<forall>(f, content) \<in> set fs. loadable insert_rows content"
  shows "\<exists>st'. load_batches insert_rows n i fs st = Inr st'
           \<and> events_table st' = events_table st @ loaded_rows insert_rows fs
           \<and> set (printed st) \<subseteq> set (printed st')
           \<and> (\<forall>(f, content) \<in> set fs.
                 empty_batch content \<longrightarrow> WarningSkippingEmpty f \<in> set (printed st'))"
  using assms
proof (induction fs arbitrary: i st)
  case Nil
  then show ?case by (simp add: loaded_rows_def)
next
  case (Cons a fs)
  obtain f content where a: "a = (f, content)" by (cases a)
  from Cons.prems have rest: "\<forall>(f, content) \<in> set fs. loadable insert_rows content"
    by simp
  from Cons.prems have "loadable insert_rows content"
    by (simp add: a)
  from read_csv_loadable [OF this] obtain df where
    r: "read_csv content = Inr df" and
    e: "frame_empty df = empty_batch content" and
    ok: "\<not> frame_empty df \<longrightarrow> (\<exists>new_rows. insert_rows df = Inr new_rows)"
    by blast
  show ?case
  proof (cases "frame_empty df")
    case True
    let ?st = "st\<lparr>printed := printed st @ [Processing i n f, WarningSkippingEmpty f]\<rparr>"
    from Cons.IH [OF rest, of "i + 1" ?st] obtain st' where
      s: "load_batches insert_rows n (i + 1) fs ?st = Inr st'"
         "events_table st' = events_table ?st @ loaded_rows insert_rows fs"
         "set (printed ?st) \<subseteq> set (printed st')"
         "\<forall>(f, content) \<in> set fs.
            empty_batch content \<longrightarrow> WarningSkippingEmpty f \<in> set (printed st')"
      by blast
    from True r s(1) have "load_batches insert_rows n i (a # fs) st = Inr st'"
      by (simp add: a Let_def)
    moreover from s(2) True r
    have "events_table st' = events_table st @ loaded_rows insert_rows (a # fs)"
      by (simp add: a loaded_rows_def batch_rows_def)
    moreover from s(3)
    have "set (printed st) \<subseteq> set (printed st')" "WarningSkippingEmpty f \<in> set (printed st')"
      by auto
    ultimately show ?thesis using s(4) by (auto simp: a)
  next
    case False
    with ok obtain new_rows where ins: "insert_rows df = Inr new_rows"
      by blast
    let ?st = "st\<lparr>printed := printed st @ [Processing i n f],
                  events_table := events_table st @ new_rows,
                  total_rows := total_rows st + length (cells df),
                  printed := printed st @ [Processing i n f] @
                    [Loaded (length (cells df)) (total_rows st + length (cells df))]\<rparr>"
    from Cons.IH [OF rest, of "i + 1" ?st] obtain st' where
      s: "load_batches insert_rows n (i + 1) fs ?st = Inr st'"
         "events_table st' = events_table ?st @ loaded_rows insert_rows fs"
         "set (printed ?st) \<subseteq> set (printed st')"
         "\<forall>(f, content) \<in> set fs.
            empty_batch content \<longrightarrow> WarningSkippingEmpty f \<in> set (printed st')"
      by blast
    from False r ins s(1) have "load_batches insert_rows n i (a # fs) st = Inr st'"
      by (simp add: a Let_def)
    moreover from s(2) False r ins
    have "events_table st' = events_table st @ loaded_rows insert_rows (a # fs)"
      by (simp add: a loaded_rows_def batch_rows_def inserted_def)
    moreover from s(3) have "set (printed st) \<subseteq> set (printed st')"
      by auto
    ultimately show ?thesis using s(4) False e by (auto simp: a)
  qed
qed

lemma load_batches_zero_bytes:
  assumes "(f, content) \<in> set fs" "csv_header content = []"
  shows "\<exists>e. load_batches insert_rows n i fs st = Inl e"
  using assms(1)
proof (induction fs arbitrary: i st)
  case Nil
  then show ?case by simp
next
  case (Cons a fs)
  obtain g c where a: "a = (g, c)" by (cases a)
  show ?case
  proof (cases "a = (f, content)")
    case True
    with assms(2) a have "read_csv c = Inl EmptyDataError"
      by (simp add: read_csv_def)
    then show ?thesis by (simp add: a Let_def)
  next
    case False
    with Cons.prems have "(f, content) \<in> set fs" by simp
    from Cons.IH [OF this] have ih: "\<And>i st. \<exists>e. load_batches insert_rows n i fs st = Inl e" .
    show ?thesis
    proof (cases "read_csv c")
      case (Inl e)
      then show ?thesis by (simp add: a Let_def)
    next
      case (Inr df)
      show ?thesis
      proof (cases "frame_empty df")
        case True
        with Inr ih show ?thesis by (simp add: a Let_def)
      next
        case False
        show ?thesis
        proof (cases "insert_rows df")
          case (Inl e)
          with Inr False show ?thesis by (simp add: a Let_def)
        next
          case (Inr new_rows)
          with \<open>read_csv c = Inr df\<close> False ih show ?thesis by (simp add: a Let_def)
        qed
      qed
    qed
  qed
qed

lemma groups_empty: "groups key rs = [] \<longleftrightarrow> rs = []"
  by (simp add: groups_def)

lemma write_store_empty: "write_store [] = Inl IOError"
  by (simp add: write_store_def export_events_def groups_def scan_events_def)

lemma write_store_result:
  "es \<noteq> [] \<Longrightarrow>
     write_store es =
       Inr \<lparr>ds_events = export_events es,
            ds_agg_counts = agg_counts_by_advertiser_type (concat (map snd (export_events es))),
            ds_agg_revenue = agg_revenue_by_minute_publisher_country (concat (map snd (export_events es))),
            ds_agg_purchase = agg_purchase_summary (concat (map snd (export_events es)))\<rparr>"
  by (simp add: write_store_def Let_def scan_events_def export_events_def groups_empty)

lemma count_list_concat:
  "count_list (concat xss) x = sum_list (map (\<lambda>xs. count_list xs x) xss)"
  by (induction xss) simp_all

lemma count_list_filter_key:
  "count_list (filter (\<lambda>r. key r = k) rs) x = (if key x = k then count_list rs x else 0)"
  by (induction rs) auto

lemma sum_list_single:
  "distinct ks \<Longrightarrow> sum_list (map (\<lambda>k. if k0 = k then (c::nat) else 0) ks) = (if k0 \<in> set ks then c else 0)"
  by (induction ks) auto

lemma count_list_groups:
  "count_list (concat (map snd (groups key rs))) x = count_list rs x"
proof -
  have "count_list (concat (map snd (groups key rs))) x
      = sum_list (map (\<lambda>k. if key x = k then count_list rs x else 0) (remdups (map key rs)))"
    by (simp add: groups_def count_list_concat comp_def count_list_filter_key)
  also have "\<dots> = (if key x \<in> set (remdups (map key rs)) then count_list rs x else 0)"
    by (rule sum_list_single) simp
  also have "\<dots> = count_list rs x"
  proof (cases "x \<in> set rs")
    case True
    then show ?thesis by auto
  next
    case False
    then have "count_list rs x = 0" by (simp add: count_list_0_iff)
    then show ?thesis by simp
  qed
  finally show ?thesis .
qed

lemma load_batches_empty_data:
  assumes "\<forall>(g, c) \<in> set before. loadable insert_rows c" "csv_header content = []"
  shows "load_batches insert_rows n i (before @ (f, content) # after) st = Inl EmptyDataError"
  using assms(1)
proof (induction before arbitrary: i st)
  case Nil
  from assms(2) have "read_csv content = Inl EmptyDataError"
    by (simp add: read_csv_def)
  then show ?case by (simp add: Let_def)
next
  case (Cons a before)
  obtain g c where a: "a = (g, c)" by (cases a)
  from Cons.prems have rest: "\<forall>(g, c) \<in> set before. loadable insert_rows c"
    by simp
  note ih = Cons.IH [OF rest]
  from Cons.prems have "loadable insert_rows c"
    by (simp add: a)
  from read_csv_loadable [OF this] obtain df where
    r: "read_csv c = Inr df" and
    ok: "\<not> frame_empty df \<longrightarrow> (\<exists>new_rows. insert_rows df = Inr new_rows)"
    by blast
  show ?case
  proof (cases "frame_empty df")
    case True
    with r ih show ?thesis by (simp add: a Let_def)
  next
    case False
    with ok obtain new_rows where "insert_rows df = Inr new_rows" by blast
    with r False ih show ?thesis by (simp add: a Let_def)
  qed
qed

lemma header_only_batches_are_skipped:
  assumes "\<forall>(f, content) \<in> set files. loadable insert_rows content"
    and "loaded_rows insert_rows files \<noteq> []"
  shows "\<exists>store msgs. prepare_from_directory insert_rows files = Inr (store, msgs)
           \<and> (\<forall>x. count_list (concat (map snd (ds_events store))) x
                     = count_list (loaded_rows insert_rows files) x)
           \<and> (\<forall>(f, content) \<in> set files.
                 empty_batch content \<longrightarrow> WarningSkippingEmpty f \<in> set msgs)"
proof -
  from assms(2) have ne: "files \<noteq> []"
    by (auto simp: loaded_rows_def)
  from load_batches_result [OF assms(1), of "length files" 1 initial_state]
  obtain st' where
    s: "load_batches insert_rows (length files) 1 files initial_state = Inr st'"
       "events_table st' = events_table initial_state @ loaded_rows insert_rows files"
       "\<forall>(f, content) \<in> set files.
          empty_batch content \<longrightarrow> WarningSkippingEmpty f \<in> set (printed st')"
    by blast
  from s(2) have t: "events_table st' = loaded_rows insert_rows files"
    by (simp add: initial_state_def)
  with assms(2) have "events_table st' \<noteq> []" by simp
  from write_store_result [OF this] obtain store where
    w: "write_store (events_table st') = Inr store"
       "ds_events store = export_events (events_table st')"
    by simp
  from ne s(1) w(1) have "prepare_from_directory insert_rows files = Inr (store, printed st')"
    by (simp add: prepare_from_directory_def)
  moreover from w(2) t
  have "\<forall>x. count_list (concat (map snd (ds_events store))) x
            = count_list (loaded_rows insert_rows files) x"
    by (simp add: export_events_def count_list_groups)
  ultimately show ?thesis using s(3) by blast
qed

lemma run_without_rows_aborts:
  assumes "files \<noteq> []"
    and "\<forall>(f, content) \<in> set files. loadable insert_rows content"
    and "loaded_rows insert_rows files = []"
  shows "prepare_from_directory insert_rows files = Inl IOError"
proof -
  from load_batches_result [OF assms(2), of "length files" 1 initial_state]
  obtain st' where
    s: "load_batches insert_rows (length files) 1 files initial_state = Inr st'"
       "events_table st' = events_table initial_state @ loaded_rows insert_rows files"
    by blast
  from s(2) assms(3) have "events_table st' = []"
    by (simp add: initial_state_def)
  with assms(1) s(1) show ?thesis
    by (simp add: prepare_from_directory_def write_store_empty)
qed

lemma two_files_run:
  "\<exists>store msgs. prepare_from_directory insert_jp_purchase two_files = Inr (store, msgs)
     \<and> concat (map snd (ds_events store)) = [purchase ''JP'' (Some 100)]
     \<and> WarningSkippingEmpty ''events_part_00000.csv'' \<in> set msgs"
  by (simp add: prepare_from_directory_def two_files_def header_only_def one_row_def
      read_csv_def frame_empty_def insert_jp_purchase_def initial_state_def Let_def
      write_store_def export_events_def scan_events_def groups_def)

lemma header_only_files_run:
  "prepare_from_directory insert_jp_purchase header_only_files = Inl IOError"
  by (simp add: prepare_from_directory_def header_only_files_def header_only_def
      read_csv_def frame_empty_def initial_state_def Let_def write_store_empty)

text \<open>
  C9. A file that has the line of column names and no row is skipped with the warning,
  and the rows of the other files are loaded (\<open>header_only_batches_are_skipped\<close>). A
  file of zero bytes is an empty batch too, but the loop never reaches its test for it:
  \<^verbatim>\<open>read_csv\<close> raises \<^verbatim>\<open>EmptyDataError\<close> first, and the run ends there. Whatever files
  stand before and after it, a run over a list that holds a file without column names
  ends with an exception, from \<open>prepare_from_directory\<close> and, when the archive filter
  keeps the file, from \<open>prepare_from_zip\<close>; when the files before it load, the
  exception is \<^verbatim>\<open>EmptyDataError\<close>, and no row of the files after it is loaded.
\<close>

theorem zero_byte_file_aborts_run:
  assumes "csv_header content = []"
  shows "(\<exists>e. prepare_from_directory insert_rows (before @ (f, content) # after) = Inl e)
       \<and> (zip_csv_file f \<longrightarrow>
            (\<exists>e. prepare_from_zip insert_rows (before @ (f, content) # after) = Inl e))
       \<and> ((\<forall>(g, c) \<in> set before. loadable insert_rows c) \<longrightarrow>
            prepare_from_directory insert_rows (before @ (f, content) # after)
              = Inl EmptyDataError)"
proof (intro conjI impI)
  let ?files = "before @ (f, content) # after"
  have "(f, content) \<in> set ?files" by simp
  from load_batches_zero_bytes [OF this assms]
  obtain e where "load_batches insert_rows (length ?files) 1 ?files initial_state = Inl e"
    by blast
  then show "\<exists>e. prepare_from_directory insert_rows ?files = Inl e"
    by (simp add: prepare_from_directory_def)
next
  let ?kept = "filter (\<lambda>(f, content). zip_csv_file f) (before @ (f, content) # after)"
  assume "zip_csv_file f"
  then have "(f, content) \<in> set ?kept" by simp
  from load_batches_zero_bytes [OF this assms]
  obtain e where "load_batches insert_rows (length ?kept) 1 ?kept initial_state = Inl e"
    by blast
  moreover from \<open>(f, content) \<in> set ?kept\<close> have "?kept \<noteq> []" by auto
  ultimately show "\<exists>e. prepare_from_zip insert_rows (before @ (f, content) # after) = Inl e"
    by (simp add: prepare_from_zip_def prepare_from_directory_def)
next
  let ?files = "before @ (f, content) # after"
  assume "\<forall>(g, c) \<in> set before. loadable insert_rows c"
  from load_batches_empty_data [OF this assms]
  have "load_batches insert_rows (length ?files) 1 ?files initial_state = Inl EmptyDataError" .
  then show "prepare_from_directory insert_rows ?files = Inl EmptyDataError"
    by (simp add: prepare_from_directory_def)
qed

theorem zero_byte_file_aborts_run_witness:
  "csv_header zero_bytes = []
   \<and> read_csv zero_bytes = Inl EmptyDataError
   \<and> zero_byte_first
       = [] @ (''events_part_00000.csv'', zero_bytes) # [(''events_part_00001.csv'', one_row)]
   \<and> prepare_from_directory insert_jp_purchase zero_byte_first = Inl EmptyDataError
   \<and> (\<exists>e. prepare_from_zip insert_jp_purchase zero_byte_first = Inl e)
   \<and> prepare_from_zip insert_jp_purchase zero_byte_first = Inl EmptyDataError
   \<and> batch_rows insert_jp_purchase one_row = [purchase ''JP'' (Some 100)]"
proof -
  have h: "csv_header zero_bytes = []"
    by (simp add: zero_bytes_def)
  have r: "read_csv zero_bytes = Inl EmptyDataError"
    by (simp add: read_csv_def zero_bytes_def)
  have z: "zero_byte_first
      = [] @ (''events_part_00000.csv'', zero_bytes) # [(''events_part_00001.csv'', one_row)]"
    by (simp add: zero_byte_first_def)
  have k: "zip_csv_file ''events_part_00000.csv''"
    by (simp add: zip_csv_file_def ends_with_def)
  have b: "batch_rows insert_jp_purchase one_row = [purchase ''JP'' (Some 100)]"
    by (simp add: batch_rows_def read_csv_def one_row_def frame_empty_def inserted_def
        insert_jp_purchase_def)
  note t = zero_byte_file_aborts_run [OF h, of insert_jp_purchase "[]"
      "''events_part_00000.csv''" "[(''events_part_00001.csv'', one_row)]"]
  from t [THEN conjunct2, THEN conjunct2]
  have d: "prepare_from_directory insert_jp_purchase zero_byte_first = Inl EmptyDataError"
    unfolding z by simp
  from t [THEN conjunct2, THEN conjunct1] k
  have p: "\<exists>e. prepare_from_zip insert_jp_purchase zero_byte_first = Inl e"
    unfolding z by simp
  have pz: "prepare_from_zip insert_jp_purchase zero_byte_first = Inl EmptyDataError"
    using k r by (simp add: prepare_from_zip_def prepare_from_directory_def zero_byte_first_def
        zip_csv_file_def ends_with_def Let_def)
  show ?thesis
    by (intro conjI; fact h r z d p pz b)
qed

subsection \<open>The rewritten query against the fallback query\<close>

lemma route_query_q2_extra_filter:
  "route_query q2_extra_filter =
     Inr (Some (q2_sql (PStr ''JP'') (PStr ''2024-10-20'') (PStr ''2024-10-23'')))"
proof -
  have "try_q1_pattern q2_extra_filter = Inr None"
    by (simp add: try_q1_pattern_def q2_extra_filter_def descriptor_defs)
  moreover have "try_q2_pattern q2_extra_filter =
      Inr (Some (q2_sql (PStr ''JP'') (PStr ''2024-10-20'') (PStr ''2024-10-23'')))"
    by (simp add: try_q2_pattern_def q2_extra_filter_def descriptor_defs py_unpack2_def)
  ultimately show ?thesis
    by (simp add: route_query_def py_or_def q2_sql_nonempty)
qed

lemma two_publishers_rewritten:
  "exec_q2 (PStr ''JP'') (PStr ''2024-10-20'') (PStr ''2024-10-23'')
     (agg_revenue_by_minute_publisher_country two_publishers)
   = [[VInt 1, VNum 1], [VInt 2, VNum 2]]"
  by (simp add: exec_q2_def agg_revenue_by_minute_publisher_country_def two_publishers_def
      event_defs groups_def sql_sum_def sql_between_def)

lemma two_publishers_fallback:
  "fallback_result q2_extra_filter two_publishers = [[VInt 1, VNum 1]]"
  by (simp add: q2_extra_filter_def descriptor_defs two_publishers_def event_defs groups_def
      sql_sum_def event_col_def)

lemma two_publishers_fallback_plain:
  "fallback_result q2_descriptor two_publishers = [[VInt 1, VNum 1], [VInt 2, VNum 2]]"
  by (simp add: q2_descriptor_def descriptor_defs two_publishers_def event_defs groups_def
      sql_sum_def event_col_def)

text \<open>
  C1. The equivalence fails on the code, for Q2: \<open>route_query\<close> rewrites
  \<open>q2_extra_filter\<close> (Q2's shape with the further filter \<^verbatim>\<open>publisher_id = 1\<close>) to the SQL
  of Q2 without that filter. Over the two impressions \<open>two_publishers\<close> (publishers 1
  and 2, Japan, 2024-10-21) the rewritten query on the revenue rollup returns a row for
  each publisher, the fallback query the row of publisher 1 only. The fallback query is
  the one of section 4.4 of the spec (\<open>fallback_result\<close>).
\<close>

theorem q2_rewrite_differs_from_fallback:
  "route_query q2_extra_filter =
     Inr (Some (q2_sql (PStr ''JP'') (PStr ''2024-10-20'') (PStr ''2024-10-23'')))
   \<and> exec_q2 (PStr ''JP'') (PStr ''2024-10-20'') (PStr ''2024-10-23'')
       (agg_revenue_by_minute_publisher_country two_publishers)
       = [[VInt 1, VNum 1], [VInt 2, VNum 2]]
   \<and> fallback_result q2_extra_filter two_publishers = [[VInt 1, VNum 1]]
   \<and> \<not> same_result
         (exec_q2 (PStr ''JP'') (PStr ''2024-10-20'') (PStr ''2024-10-23'')
            (agg_revenue_by_minute_publisher_country two_publishers))
         (fallback_result q2_extra_filter two_publishers)"
proof -
  have ns: "\<not> same_result
         (exec_q2 (PStr ''JP'') (PStr ''2024-10-20'') (PStr ''2024-10-23'')
            (agg_revenue_by_minute_publisher_country two_publishers))
         (fallback_result q2_extra_filter two_publishers)"
    unfolding two_publishers_rewritten two_publishers_fallback
    by (simp add: same_result_def cell_close_def)
  show ?thesis
    by (intro conjI; fact route_query_q2_extra_filter two_publishers_rewritten
        two_publishers_fallback ns)
qed

theorem q2_rewrite_differs_from_fallback_witness:
  "\<exists>sql. route_query q2_extra_filter = Inr (Some sql)
         \<and> route_query q2_descriptor = Inr (Some sql)
         \<and> same_result
             (exec_q2 (PStr ''JP'') (PStr ''2024-10-20'') (PStr ''2024-10-23'')
                (agg_revenue_by_minute_publisher_country two_publishers))
             (fallback_result q2_descriptor two_publishers)"
proof -
  have "try_q1_pattern q2_descriptor = Inr None"
    by (simp add: try_q1_pattern_def q2_descriptor_def descriptor_defs)
  with try_q2_q2_descriptor have "route_query q2_descriptor =
      Inr (Some (q2_sql (PStr ''JP'') (PStr ''2024-10-20'') (PStr ''2024-10-23'')))"
    by (simp add: route_query_def py_or_def q2_sql_nonempty)
  moreover have "same_result
             (exec_q2 (PStr ''JP'') (PStr ''2024-10-20'') (PStr ''2024-10-23'')
                (agg_revenue_by_minute_publisher_country two_publishers))
             (fallback_result q2_descriptor two_publishers)"
    unfolding two_publishers_rewritten two_publishers_fallback_plain
    by (simp add: same_result_def cell_close_def)
  moreover from q2_rewrite_differs_from_fallback have "route_query q2_extra_filter =
      Inr (Some (q2_sql (PStr ''JP'') (PStr ''2024-10-20'') (PStr ''2024-10-23'')))"
    by (rule conjunct1)
  ultimately show ?thesis
    by blast
qed

end
